theory Spec2Isabelle
  imports Main "HOL-Library.Word"
begin

section \<open>The DLMS reader of dlms-client-example-go (GXDLMSReader.go)\<close>

text \<open>
  The reader drives a request/response exchange with a meter. It owns no protocol
  logic: bytes go through a transport (\<open>gxcommon.IGXMedia\<close>) and are parsed by a codec
  (\<open>dlms.GXDLMSSecureClient\<close>). Both live in other modules, so their behaviour is a
  parameter of the model (the record \<open>env\<close> below): every method the reader calls is a
  function from the collaborator's state to a result and a new state.

  Go values and their model:
  \<^item> \<open>[]byte\<close> is a \<open>frame\<close>: \<open>None\<close> is the nil slice, \<open>Some []\<close> an empty non-nil one;
  \<^item> \<open>error\<close> is \<open>error option\<close>, \<open>None\<close> being nil;
  \<^item> a call either returns or panics (\<open>outcome\<close>); a call that never returns is the
    value \<open>None\<close> of the fuel-indexed functions, whatever the fuel;
  \<^item> \<open>*dlms.GXReplyData\<close> is \<open>GXReplyData option\<close>; the accumulator is mutated in place
    in Go and returned updated here.

  Left out: the exclusive-use lock of the transport (\<open>GetSynchronous\<close> and the deferred
  unlock), which matters to concurrent callers only; \<open>log.Printf\<close>; and the trace level
  and trace file, so that \<open>writeTrace\<close> records the line it is given and nothing more.
\<close>

subsection \<open>Values, errors, outcomes\<close>

type_synonym byte = "8 word"
type_synonym bytes = "byte list"
type_synonym frame = "bytes option"

definition len :: "frame \<Rightarrow> nat" where
  "len data = (case data of None \<Rightarrow> 0 | Some bs \<Rightarrow> length bs)"

definition frame_bytes :: "frame \<Rightarrow> bytes" where
  "frame_bytes data = (case data of None \<Rightarrow> [] | Some bs \<Rightarrow> bs)"

text \<open>Go's \<open>any\<close> as far as the reader looks into it: a slice \<open>[]any\<close> or something else.\<close>

datatype any = Scalar int | Array "any list"

text \<open>A COSEM object is known to the reader by identity only.\<close>

type_synonym obj = nat
type_synonym attr_list = "(obj \<times> int) list"

datatype error =
    ReplyIsNil                  \<comment> \<open>\<open>errors.New("reply is nil")\<close>\<close>
  | PacketIsEmpty               \<comment> \<open>\<open>errors.New("packet is empty")\<close>\<close>
  | ReceiveFailed               \<comment> \<open>\<open>"failed to receive reply from the device in given time"\<close>\<close>
  | DlmsError int               \<comment> \<open>\<open>fmt.Errorf("dlms error %s", enums.ErrorCode(reply.Error))\<close>\<close>
  | InvalidReplyCount nat nat   \<comment> \<open>\<open>"invalid reply count: got %d, expected %d"\<close>\<close>
  | MediaError nat              \<comment> \<open>an error returned by the transport\<close>
  | ClientError nat             \<comment> \<open>an error returned by the codec\<close>
  | BufferError nat             \<comment> \<open>an error returned by \<open>types.GXByteBuffer\<close>\<close>

datatype 'a outcome = Returns 'a | Panics

text \<open>How a loop ends: control goes on after the loop, or the function is left.\<close>

datatype ('k, 'a) flow = Next 'k | Exit "'a outcome"

subsection \<open>The reply accumulator and the receive parameters\<close>

text \<open>
  Modelled from the spec: \<open>dlms.GXReplyData\<close>, the Reply Accumulator, which is declared in
  gxdlms-go. The record holds what the reader reads from it: the field \<open>Error\<close> (the last
  error code, zero for success), the field \<open>Value\<close> (the decoded value), \<open>Data.Size()\<close>
  (how many raw bytes have accumulated), and the answers of \<open>IsMoreData()\<close> (more data
  pending), \<open>IsStreaming()\<close> and \<open>IsComplete()\<close>.
\<close>

record GXReplyData =
  Error :: int
  Value :: "any option"
  DataSize :: nat
  IsMoreData :: bool
  IsStreaming :: bool
  IsComplete :: bool

text \<open>Modelled from the spec: \<open>dlms.NewGXReplyData()\<close>, an accumulator created fresh.\<close>

definition NewGXReplyData :: GXReplyData where
  "NewGXReplyData =
     \<lparr>Error = 0, Value = None, DataSize = 0, IsMoreData = False, IsStreaming = False,
      IsComplete = False\<rparr>"

text \<open>
  Modelled from the spec: \<open>reply.Clear()\<close>, which clears the accumulator between the blocks
  of an exchange without allocating a new one: it is in its initial state again.
\<close>

definition Clear :: "GXReplyData \<Rightarrow> GXReplyData" where
  "Clear reply = NewGXReplyData"

record ReceiveParameters =
  EOP :: "byte option"
  Count :: int
  AllData :: bool
  WaitTimeP :: int
  Reply :: "bytes option"   \<comment> \<open>\<open>Reply any\<close>: \<open>None\<close> is nil, \<open>Some bs\<close> holds a \<open>[]byte\<close>\<close>

text \<open>What one \<open>media.Receive(p)\<close> gives back: the two results and \<open>p.Reply\<close> afterwards.\<close>

record received =
  succeeded :: bool
  rxErr :: "nat option"
  rxReply :: "bytes option"

text \<open>
  What one \<open>client.GetData(rd, reply, notify)\<close> gives back: the two results, and the
  three arguments as the codec leaves them.
\<close>

record parsed =
  complete :: bool
  gdErr :: "nat option"
  gdBuffer :: bytes
  gdReply :: GXReplyData
  gdNotify :: GXReplyData

datatype InterfaceType =
  InterfaceTypeHDLC | InterfaceTypeWRAPPER | InterfaceTypeHdlcWithModeE | InterfaceTypeOther

subsection \<open>The collaborators\<close>

text \<open>
  \<open>'m\<close> is the state of the transport, \<open>'c\<close> the state of the codec. The attribute values
  of the COSEM objects are a store of their own: of the codec's methods the reader calls,
  only \<open>UpdateValues\<close> is handed the objects to write to. An error of a collaborator is a
  number here; the reader passes it on as \<open>MediaError\<close>, \<open>ClientError\<close> or \<open>BufferError\<close>.
\<close>

type_synonym store = "obj \<times> int \<Rightarrow> any option"

record ('m, 'c) env =
  media_Send :: "bytes \<Rightarrow> 'm \<Rightarrow> nat option \<times> 'm"
  media_Receive :: "ReceiveParameters \<Rightarrow> 'm \<Rightarrow> received \<times> 'm"
  media_Close :: "'m \<Rightarrow> nat option \<times> 'm"
  client_InterfaceType :: "'c \<Rightarrow> InterfaceType"
  client_GetFrameSize :: "'c \<Rightarrow> bytes \<Rightarrow> int"
  client_GetData :: "'c \<Rightarrow> bytes \<Rightarrow> GXReplyData \<Rightarrow> GXReplyData \<Rightarrow> parsed \<times> 'c"
  client_ReceiverReady :: "'c \<Rightarrow> GXReplyData \<Rightarrow> (nat + frame) \<times> 'c"
  client_ConnectionStateNone :: "'c \<Rightarrow> bool"
  client_PreEstablishedConnection :: "'c \<Rightarrow> bool"
  client_SecurityNone :: "'c \<Rightarrow> bool"
  client_ReleaseRequest :: "'c \<Rightarrow> (nat + frame list option) \<times> 'c"
  client_DisconnectRequest :: "'c \<Rightarrow> (nat + frame) \<times> 'c"
  client_ReadList :: "'c \<Rightarrow> attr_list \<Rightarrow> (nat + frame list option) \<times> 'c"
  client_UpdateValues :: "'c \<Rightarrow> attr_list \<Rightarrow> any list \<Rightarrow> store \<Rightarrow> nat option \<times> 'c \<times> store"
  buffer_Set :: "bytes \<Rightarrow> bytes \<Rightarrow> nat option \<times> bytes"
  ErrorCodeRejected :: int

subsection \<open>The reader and the world it acts on\<close>

text \<open>
  The struct \<open>GXDLMSReader\<close>, without the fields of the trace and the invocation counter.
  \<open>media\<close> and \<open>client\<close> are references: \<open>False\<close> is nil, \<open>True\<close> points to the one
  transport or codec whose state is in the world. \<open>OnNotification\<close> says whether a callback
  is registered. Only \<open>Close\<close> assigns to a field of the struct, so every other method
  takes the reader as a value and returns the world only.
\<close>

record GXDLMSReader =
  WaitTime :: int
  RetryCount :: int
  media :: bool
  client :: bool
  OnNotification :: bool

definition NewGXDLMSReader :: "int \<Rightarrow> GXDLMSReader" where
  "NewGXDLMSReader waitTime =
     \<lparr>WaitTime = (if waitTime \<le> 0 then 5000 else waitTime), RetryCount = 3,
      media = True, client = True, OnNotification = False\<rparr>"

text \<open>
  Everything the reader does to the outside is written to \<open>events\<close>, oldest first; the
  entries \<open>EnterReadDataBlock\<close> mark a call of the reader's own method.
\<close>

datatype trace_line = TX frame | RX bytes | ReleaseFailedLine error

datatype event =
    Sent frame
  | ReceiveCalled
  | Slept
  | Notified "any option"
  | Traced trace_line
  | MediaClosed
  | ReceiverReadyCalled GXReplyData
  | ReleaseRequested
  | DisconnectRequested
  | ReadListRequested attr_list
  | ValuesUpdated attr_list "any list"
  | EnterReadDataBlock frame "GXReplyData option"

record ('m, 'c) world =
  mediaSt :: 'm
  clientSt :: 'c
  objects :: store
  events :: "event list"

definition emit :: "event \<Rightarrow> ('m, 'c) world \<Rightarrow> ('m, 'c) world" where
  "emit e w = w\<lparr>events := events w @ [e]\<rparr>"

definition writeTrace :: "trace_line \<Rightarrow> ('m, 'c) world \<Rightarrow> ('m, 'c) world" where
  "writeTrace line w = emit (Traced line) w"

definition Send :: "('m, 'c) env \<Rightarrow> frame \<Rightarrow> ('m, 'c) world \<Rightarrow> error option \<times> ('m, 'c) world" where
  "Send E data w =
     (case media_Send E (frame_bytes data) (mediaSt w) of
        (e, m') \<Rightarrow> (map_option MediaError e, emit (Sent data) (w\<lparr>mediaSt := m'\<rparr>)))"

definition Receive ::
  "('m, 'c) env \<Rightarrow> ReceiveParameters \<Rightarrow> ('m, 'c) world \<Rightarrow> received \<times> ('m, 'c) world" where
  "Receive E p w =
     (case media_Receive E p (mediaSt w) of
        (rx, m') \<Rightarrow> (rx, emit ReceiveCalled (w\<lparr>mediaSt := m'\<rparr>)))"

definition GetData ::
  "('m, 'c) env \<Rightarrow> bytes \<Rightarrow> GXReplyData \<Rightarrow> GXReplyData \<Rightarrow> ('m, 'c) world
     \<Rightarrow> parsed \<times> ('m, 'c) world" where
  "GetData E rd reply notify w =
     (case client_GetData E (clientSt w) rd reply notify of
        (pr, c') \<Rightarrow> (pr, w\<lparr>clientSt := c'\<rparr>))"

definition sends :: "('m, 'c) world \<Rightarrow> nat" where
  "sends w = length (filter (\<lambda>e. case e of Sent d \<Rightarrow> True | _ \<Rightarrow> False) (events w))"

definition sleeps :: "('m, 'c) world \<Rightarrow> nat" where
  "sleeps w = length (filter (\<lambda>e. e = Slept) (events w))"

text \<open>Of a call of \<open>ReadDLMSPacket\<close>: how it ended, after how many sends and pauses.\<close>

definition onWire ::
  "('a \<times> GXReplyData option \<times> ('m, 'c) world) option \<Rightarrow> ('a \<times> nat \<times> nat) option" where
  "onWire res = map_option (\<lambda>(out, reply, w). (out, sends w, sleeps w)) res"

subsection \<open>ReadDLMSPacket\<close>

text \<open>
  The first loop, lines 371 to 397: \<open>for !succeeded && attempt != 3\<close>. Nothing in its
  body runs while the accumulator is streaming, so the loop then repeats unchanged:
  the fuel runs out, whatever it was.
\<close>

fun sendLoop ::
  "nat \<Rightarrow> ('m, 'c) env \<Rightarrow> GXDLMSReader \<Rightarrow> frame \<Rightarrow> GXReplyData \<Rightarrow> bool \<Rightarrow> int
     \<Rightarrow> ReceiveParameters \<Rightarrow> ('m, 'c) world
     \<Rightarrow> ((bool \<times> ReceiveParameters, error option) flow \<times> ('m, 'c) world) option" where
  "sendLoop 0 E r data reply ok attempt p w = None"
| "sendLoop (Suc n) E r data reply ok attempt p w =
     (if \<not> ok \<and> attempt \<noteq> 3 then
        (if \<not> IsStreaming reply then
           (if len data = 0 then Some (Exit (Returns (Some PacketIsEmpty)), w)
            else
              (case Send E data (writeTrace (TX data) w) of
                 (Some e, w1) \<Rightarrow> Some (Exit (Returns (Some e)), w1)
               | (None, w1) \<Rightarrow>
                   (case Receive E p w1 of
                      (rx, w2) \<Rightarrow>
                        (if rxErr rx \<noteq> None
                         then Some (Exit (Returns (map_option MediaError (rxErr rx))), w2)
                         else if \<not> succeeded rx then
                           (if attempt + 1 \<ge> RetryCount r
                            then Some (Exit (Returns (Some ReceiveFailed)), w2)
                            else sendLoop n E r data reply False (attempt + 1)
                                   (if EOP p = None then p\<lparr>Reply := rxReply rx, Count := 1\<rparr>
                                    else p\<lparr>Reply := rxReply rx\<rparr>) w2)
                         else sendLoop n E r data reply True attempt (p\<lparr>Reply := rxReply rx\<rparr>) w2))))
         else sendLoop n E r data reply ok attempt p w)
      else Some (Next (ok, p), w))"

text \<open>
  The inner loop, lines 423 to 441: receive, and on a timeout count the attempt, give up
  at \<open>RetryCount\<close> or send the frame again. Each round that goes on has counted one more
  attempt below \<open>RetryCount\<close>, so the loop ends.
\<close>

function receiveLoop ::
  "('m, 'c) env \<Rightarrow> GXDLMSReader \<Rightarrow> frame \<Rightarrow> int \<Rightarrow> ReceiveParameters \<Rightarrow> ('m, 'c) world
     \<Rightarrow> (int \<times> ReceiveParameters, error option) flow \<times> ('m, 'c) world" where
  "receiveLoop E r data attempt p w =
     (case Receive E p w of
        (rx, w1) \<Rightarrow>
          (if rxErr rx \<noteq> None then (Exit (Returns (map_option MediaError (rxErr rx))), w1)
           else if succeeded rx then (Next (attempt, p\<lparr>Reply := rxReply rx\<rparr>), w1)
           else if attempt + 1 \<ge> RetryCount r then (Exit (Returns (Some ReceiveFailed)), w1)
           else
             (case Send E data w1 of
                (Some e, w2) \<Rightarrow> (Exit (Returns (Some e)), w2)
              | (None, w2) \<Rightarrow> receiveLoop E r data (attempt + 1) (p\<lparr>Reply := None\<rparr>) w2)))"
  by pat_completeness auto
termination
  by (relation "measure (\<lambda>(E, r, data, attempt, p, w). nat (RetryCount r - attempt))") auto

declare receiveLoop.simps [simp del]

text \<open>
  The loop of lines 406 to 446: parse, and while the codec has no complete reply hand a
  finished notification to the callback, receive again and append the bytes.
  \<open>p.Reply.([]byte)\<close> panics when \<open>p.Reply\<close> holds no byte slice.
\<close>

fun parseLoop ::
  "nat \<Rightarrow> ('m, 'c) env \<Rightarrow> GXDLMSReader \<Rightarrow> frame \<Rightarrow> bytes \<Rightarrow> GXReplyData \<Rightarrow> GXReplyData \<Rightarrow> int
     \<Rightarrow> ReceiveParameters \<Rightarrow> ('m, 'c) world
     \<Rightarrow> ((bytes, error option) flow \<times> GXReplyData \<times> ('m, 'c) world) option" where
  "parseLoop 0 E r data rd reply notify attempt p w = None"
| "parseLoop (Suc n) E r data rd reply notify attempt p w =
     (case GetData E rd reply notify w of
        (pr, w1) \<Rightarrow>
          (if gdErr pr \<noteq> None
           then Some (Exit (Returns (map_option ClientError (gdErr pr))), gdReply pr, w1)
           else if complete pr then Some (Next (gdBuffer pr), gdReply pr, w1)
           else
             (let dispatch = IsComplete (gdNotify pr) \<and> \<not> IsMoreData (gdNotify pr);
                  w2 = (if dispatch \<and> OnNotification r
                        then emit (Notified (Value (gdNotify pr))) w1 else w1);
                  notify' = (if dispatch then Clear (gdNotify pr) else gdNotify pr);
                  p1 = (if EOP p = None
                        then p\<lparr>Count := client_GetFrameSize E (clientSt w2) (gdBuffer pr)\<rparr>
                        else p)
              in
                (case receiveLoop E r data attempt p1 w2 of
                   (Exit out, w3) \<Rightarrow> Some (Exit out, gdReply pr, w3)
                 | (Next (attempt', p2), w3) \<Rightarrow>
                     (case Reply p2 of
                        None \<Rightarrow> Some (Exit Panics, gdReply pr, w3)
                      | Some bs \<Rightarrow>
                          (case buffer_Set E (gdBuffer pr) bs of
                             (Some e, rd') \<Rightarrow>
                               Some (Exit (Returns (Some (BufferError e))), gdReply pr, w3)
                           | (None, rd') \<Rightarrow>
                               parseLoop n E r data rd' (gdReply pr) notify' attempt' p2 w3))))))"

text \<open>
  \<open>ReadDLMSPacket\<close>, lines 343 to 456. A nil \<open>client\<close> or \<open>media\<close> is dereferenced at
  lines 354 and 359. The call of itself at line 451 follows a reply that carries the
  error code \<open>ErrorCodeRejected\<close>, after \<open>time.Sleep(time.Second)\<close>.
\<close>

fun ReadDLMSPacket ::
  "nat \<Rightarrow> ('m, 'c) env \<Rightarrow> GXDLMSReader \<Rightarrow> frame \<Rightarrow> GXReplyData option \<Rightarrow> ('m, 'c) world
     \<Rightarrow> (error option outcome \<times> GXReplyData option \<times> ('m, 'c) world) option" where
  "ReadDLMSPacket 0 E r data reply w = None"
| "ReadDLMSPacket (Suc n) E r data None w = Some (Returns (Some ReplyIsNil), None, w)"
| "ReadDLMSPacket (Suc n) E r data (Some reply) w =
     (if data = None \<and> \<not> IsStreaming reply then Some (Returns None, Some reply, w)
      else if \<not> client r \<or> \<not> media r then Some (Panics, Some (reply\<lparr>Error := 0\<rparr>), w)
      else
        (let reply0 = reply\<lparr>Error := 0\<rparr>;
             eop = (if client_InterfaceType E (clientSt w) \<noteq> InterfaceTypeHDLC \<and>
                       client_InterfaceType E (clientSt w) \<noteq> InterfaceTypeHdlcWithModeE
                    then None else Some (0x7E :: byte));
             p = \<lparr>EOP = eop, Count = client_GetFrameSize E (clientSt w) [], AllData = True,
                  WaitTimeP = WaitTime r, Reply = None\<rparr>
         in
           (case sendLoop n E r data reply0 False 0 p w of
              None \<Rightarrow> None
            | Some (Exit out, w1) \<Rightarrow> Some (out, Some reply0, w1)
            | Some (Next (ok, p1), w1) \<Rightarrow>
                (case Reply p1 of
                   None \<Rightarrow> Some (Panics, Some reply0, w1)
                 | Some bs \<Rightarrow>
                     (case buffer_Set E [] bs of
                        (Some e, rd) \<Rightarrow> Some (Returns (Some (BufferError e)), Some reply0, w1)
                      | (None, rd) \<Rightarrow>
                          (case parseLoop n E r data rd reply0 NewGXReplyData 0 p1 w1 of
                             None \<Rightarrow> None
                           | Some (Exit out, reply1, w2) \<Rightarrow> Some (out, Some reply1, w2)
                           | Some (Next rd', reply1, w2) \<Rightarrow>
                               (let w3 = writeTrace (RX rd') w2 in
                                  if Error reply1 \<noteq> 0 then
                                    (if Error reply1 = ErrorCodeRejected E
                                     then ReadDLMSPacket n E r data (Some reply1) (emit Slept w3)
                                     else Some (Returns (Some (DlmsError (Error reply1))),
                                                Some reply1, w3))
                                  else Some (Returns None, Some reply1, w3))))))))"

subsection \<open>ReadDataBlock and ReadDataBlocks\<close>

definition ReceiverReady ::
  "('m, 'c) env \<Rightarrow> GXReplyData \<Rightarrow> ('m, 'c) world \<Rightarrow> (error + frame) \<times> ('m, 'c) world" where
  "ReceiverReady E reply w =
     (case client_ReceiverReady E (clientSt w) reply of
        (res, c') \<Rightarrow>
          (map_sum ClientError id res, emit (ReceiverReadyCalled reply) (w\<lparr>clientSt := c'\<rparr>)))"

text \<open>The condition of the loop at lines 480 to 482.\<close>

definition moreToRead :: "('m, 'c) env \<Rightarrow> ('m, 'c) world \<Rightarrow> GXReplyData \<Rightarrow> bool" where
  "moreToRead E w reply \<longleftrightarrow>
     (IsMoreData reply \<and>
        (\<not> client_ConnectionStateNone E (clientSt w) \<or>
         client_PreEstablishedConnection E (clientSt w))) \<or>
     (Error reply = 0 \<and> DataSize reply = 0)"

text \<open>
  The loop of \<open>ReadDataBlock\<close>, lines 480 to 495. The condition asks the client for the
  connection state only when \<open>reply.IsMoreData()\<close> holds; a nil client panics there, and
  at \<open>ReceiverReady\<close>.
\<close>

fun followUp ::
  "nat \<Rightarrow> ('m, 'c) env \<Rightarrow> GXDLMSReader \<Rightarrow> GXReplyData \<Rightarrow> ('m, 'c) world
     \<Rightarrow> (error option outcome \<times> GXReplyData option \<times> ('m, 'c) world) option" where
  "followUp 0 E r reply w = None"
| "followUp (Suc n) E r reply w =
     (if IsMoreData reply \<and> \<not> client r then Some (Panics, Some reply, w)
      else if moreToRead E w reply then
        (if IsStreaming reply then
           (case ReadDLMSPacket n E r None (Some reply) w of
              None \<Rightarrow> None
            | Some (Returns None, Some reply', w') \<Rightarrow> followUp n E r reply' w'
            | Some (Returns None, None, w') \<Rightarrow> Some (Panics, None, w')
            | Some (Returns (Some e), reply', w') \<Rightarrow> Some (Returns (Some e), reply', w')
            | Some (Panics, reply', w') \<Rightarrow> Some (Panics, reply', w'))
         else if \<not> client r then Some (Panics, Some reply, w)
         else
           (case ReceiverReady E reply w of
              (Inl e, w1) \<Rightarrow> Some (Returns (Some e), Some reply, w1)
            | (Inr next, w1) \<Rightarrow>
                (case ReadDLMSPacket n E r next (Some reply) w1 of
                   None \<Rightarrow> None
                 | Some (Returns None, Some reply', w') \<Rightarrow> followUp n E r reply' w'
                 | Some (Returns None, None, w') \<Rightarrow> Some (Panics, None, w')
                 | Some (Returns (Some e), reply', w') \<Rightarrow> Some (Returns (Some e), reply', w')
                 | Some (Panics, reply', w') \<Rightarrow> Some (Panics, reply', w'))))
      else Some (Returns None, Some reply, w))"

text \<open>
  \<open>ReadDataBlock\<close>, lines 473 to 497. \<open>r.media.GetSynchronous()\<close> at line 477 panics on a
  nil media.
\<close>

definition ReadDataBlock ::
  "nat \<Rightarrow> ('m, 'c) env \<Rightarrow> GXDLMSReader \<Rightarrow> frame \<Rightarrow> GXReplyData option \<Rightarrow> ('m, 'c) world
     \<Rightarrow> (error option outcome \<times> GXReplyData option \<times> ('m, 'c) world) option" where
  "ReadDataBlock n E r data reply w =
     (case ReadDLMSPacket n E r data reply (emit (EnterReadDataBlock data reply) w) of
        None \<Rightarrow> None
      | Some (Returns (Some e), reply1, w1) \<Rightarrow> Some (Returns (Some e), reply1, w1)
      | Some (Panics, reply1, w1) \<Rightarrow> Some (Panics, reply1, w1)
      | Some (Returns None, reply1, w1) \<Rightarrow>
          (if \<not> media r then Some (Panics, reply1, w1)
           else
             (case reply1 of
                None \<Rightarrow> Some (Panics, None, w1)
              | Some reply' \<Rightarrow> followUp n E r reply' w1)))"

text \<open>
  The loop of \<open>ReadDataBlocks\<close>, lines 463 to 469, with the return after it.
  \<open>reply.Clear()\<close> and \<open>reply.Error\<close> dereference the accumulator.
\<close>

fun blocksLoop ::
  "nat \<Rightarrow> ('m, 'c) env \<Rightarrow> GXDLMSReader \<Rightarrow> frame list \<Rightarrow> GXReplyData option \<Rightarrow> ('m, 'c) world
     \<Rightarrow> ((bool \<times> error option) outcome \<times> GXReplyData option \<times> ('m, 'c) world) option" where
  "blocksLoop n E r [] reply w =
     (case reply of
        None \<Rightarrow> Some (Panics, None, w)
      | Some rp \<Rightarrow> Some (Returns (Error rp = 0, None), reply, w))"
| "blocksLoop n E r (b # bs) reply w =
     (case reply of
        None \<Rightarrow> Some (Panics, None, w)
      | Some rp \<Rightarrow>
          (case ReadDataBlock n E r b (Some (Clear rp)) w of
             None \<Rightarrow> None
           | Some (Returns None, reply', w') \<Rightarrow> blocksLoop n E r bs reply' w'
           | Some (Returns (Some e), reply', w') \<Rightarrow> Some (Returns (False, Some e), reply', w')
           | Some (Panics, reply', w') \<Rightarrow> Some (Panics, reply', w')))"

definition ReadDataBlocks ::
  "nat \<Rightarrow> ('m, 'c) env \<Rightarrow> GXDLMSReader \<Rightarrow> frame list option \<Rightarrow> GXReplyData option
     \<Rightarrow> ('m, 'c) world
     \<Rightarrow> ((bool \<times> error option) outcome \<times> GXReplyData option \<times> ('m, 'c) world) option" where
  "ReadDataBlocks n E r blocks reply w =
     (case blocks of
        None \<Rightarrow> Some (Returns (True, None), reply, w)
      | Some bs \<Rightarrow> blocksLoop n E r bs reply w)"

subsection \<open>ReadList\<close>

text \<open>The values a finished block adds, lines 534 to 538.\<close>

definition blockValues :: "GXReplyData \<Rightarrow> any list" where
  "blockValues reply =
     (if \<not> IsMoreData reply then (case Value reply of Some (Array v) \<Rightarrow> v | _ \<Rightarrow> []) else [])"

fun listLoop ::
  "nat \<Rightarrow> ('m, 'c) env \<Rightarrow> GXDLMSReader \<Rightarrow> frame list \<Rightarrow> GXReplyData \<Rightarrow> any list \<Rightarrow> ('m, 'c) world
     \<Rightarrow> ((any list, error option) flow \<times> ('m, 'c) world) option" where
  "listLoop n E r [] reply vals w = Some (Next vals, w)"
| "listLoop n E r (f # fs) reply vals w =
     (case ReadDataBlock n E r f (Some reply) w of
        None \<Rightarrow> None
      | Some (Returns None, Some reply', w') \<Rightarrow>
          listLoop n E r fs (Clear reply') (vals @ blockValues reply') w'
      | Some (Returns None, None, w') \<Rightarrow> Some (Exit Panics, w')
      | Some (Returns (Some e), reply', w') \<Rightarrow> Some (Exit (Returns (Some e)), w')
      | Some (Panics, reply', w') \<Rightarrow> Some (Exit Panics, w'))"

definition UpdateValues ::
  "('m, 'c) env \<Rightarrow> attr_list \<Rightarrow> any list \<Rightarrow> ('m, 'c) world \<Rightarrow> error option \<times> ('m, 'c) world" where
  "UpdateValues E list vals w =
     (case client_UpdateValues E (clientSt w) list vals (objects w) of
        (e, c', st') \<Rightarrow>
          (map_option ClientError e,
           emit (ValuesUpdated list vals) (w\<lparr>clientSt := c', objects := st'\<rparr>)))"

text \<open>\<open>ReadList\<close>, lines 523 to 545. A nil slice of frames is ranged over like an empty one.\<close>

definition ReadList ::
  "nat \<Rightarrow> ('m, 'c) env \<Rightarrow> GXDLMSReader \<Rightarrow> attr_list \<Rightarrow> ('m, 'c) world
     \<Rightarrow> (error option outcome \<times> ('m, 'c) world) option" where
  "ReadList n E r list w =
     (if \<not> client r then Some (Panics, w)
      else
        (case client_ReadList E (clientSt w) list of
           (Inl e, c') \<Rightarrow>
             Some (Returns (Some (ClientError e)), emit (ReadListRequested list) (w\<lparr>clientSt := c'\<rparr>))
         | (Inr frames, c') \<Rightarrow>
             (case listLoop n E r (case frames of None \<Rightarrow> [] | Some fs \<Rightarrow> fs) NewGXReplyData []
                     (emit (ReadListRequested list) (w\<lparr>clientSt := c'\<rparr>)) of
                None \<Rightarrow> None
              | Some (Exit out, w1) \<Rightarrow> Some (out, w1)
              | Some (Next vals, w1) \<Rightarrow>
                  (if length vals \<noteq> length list
                   then Some (Returns (Some (InvalidReplyCount (length vals) (length list))), w1)
                   else (case UpdateValues E list vals w1 of (e, w2) \<Rightarrow> Some (Returns e, w2))))))"

subsection \<open>Release, Disconnect, Close\<close>

text \<open>\<open>Release\<close>, lines 618 to 633.\<close>

definition Release ::
  "nat \<Rightarrow> ('m, 'c) env \<Rightarrow> GXDLMSReader \<Rightarrow> ('m, 'c) world
     \<Rightarrow> (error option outcome \<times> ('m, 'c) world) option" where
  "Release n E r w =
     (if \<not> client r \<or> \<not> media r then Some (Returns None, w)
      else if client_InterfaceType E (clientSt w) = InterfaceTypeWRAPPER \<or>
              (\<not> client_SecurityNone E (clientSt w) \<and>
               \<not> client_PreEstablishedConnection E (clientSt w)) then
        (case client_ReleaseRequest E (clientSt w) of
           (Inl e, c') \<Rightarrow>
             Some (Returns (Some (ClientError e)), emit ReleaseRequested (w\<lparr>clientSt := c'\<rparr>))
         | (Inr frames, c') \<Rightarrow>
             (case ReadDataBlocks n E r frames (Some NewGXReplyData)
                     (emit ReleaseRequested (w\<lparr>clientSt := c'\<rparr>)) of
                None \<Rightarrow> None
              | Some (Returns (ok, err), reply, w1) \<Rightarrow> Some (Returns err, w1)
              | Some (Panics, reply, w1) \<Rightarrow> Some (Panics, w1)))
      else Some (Returns None, w))"

text \<open>\<open>Disconnect\<close>, lines 636 to 654.\<close>

definition Disconnect ::
  "nat \<Rightarrow> ('m, 'c) env \<Rightarrow> GXDLMSReader \<Rightarrow> ('m, 'c) world
     \<Rightarrow> (error option outcome \<times> ('m, 'c) world) option" where
  "Disconnect n E r w =
     (if \<not> client r \<or> \<not> media r then Some (Returns None, w)
      else
        (case Release n E r w of
           None \<Rightarrow> None
         | Some (Panics, w1) \<Rightarrow> Some (Panics, w1)
         | Some (Returns err, w1) \<Rightarrow>
             (let w2 = (case err of
                          Some e \<Rightarrow> writeTrace (ReleaseFailedLine e) w1
                        | None \<Rightarrow> w1)
              in
                (case client_DisconnectRequest E (clientSt w2) of
                   (Inl e, c') \<Rightarrow>
                     Some (Returns (Some (ClientError e)),
                           emit DisconnectRequested (w2\<lparr>clientSt := c'\<rparr>))
                 | (Inr frame, c') \<Rightarrow>
                     (if frame = None
                      then Some (Returns None, emit DisconnectRequested (w2\<lparr>clientSt := c'\<rparr>))
                      else
                        (case ReadDLMSPacket n E r frame (Some NewGXReplyData)
                                (emit DisconnectRequested (w2\<lparr>clientSt := c'\<rparr>)) of
                           None \<Rightarrow> None
                         | Some (out, reply, w3) \<Rightarrow> Some (out, w3)))))))"

text \<open>\<open>Close\<close>, lines 657 to 666: the only method that assigns to the reader.\<close>

definition Close ::
  "nat \<Rightarrow> ('m, 'c) env \<Rightarrow> GXDLMSReader \<Rightarrow> ('m, 'c) world
     \<Rightarrow> (error option outcome \<times> GXDLMSReader \<times> ('m, 'c) world) option" where
  "Close n E r w =
     (if \<not> media r then Some (Returns None, r, w)
      else
        (case Disconnect n E r w of
           None \<Rightarrow> None
         | Some (Panics, w1) \<Rightarrow> Some (Panics, r, w1)
         | Some (Returns ignored, w1) \<Rightarrow>
             (case media_Close E (mediaSt w1) of
                (err, m') \<Rightarrow>
                  Some (Returns (map_option MediaError err), r\<lparr>media := False, client := False\<rparr>,
                        emit MediaClosed (w1\<lparr>mediaSt := m'\<rparr>)))))"

subsection \<open>Projections of the world\<close>

text \<open>
  The events of the reader's own methods and of the codec's request builders, as opposed
  to the traffic on the wire and the trace lines.
\<close>

fun high :: "event \<Rightarrow> bool" where
  "high (Sent d) = False"
| "high ReceiveCalled = False"
| "high Slept = False"
| "high (Notified v) = False"
| "high (Traced l) = False"
| "high (ReceiverReadyCalled rp) = False"
| "high e = True"

definition ledger :: "('m, 'c) world \<Rightarrow> store \<times> event list" where
  "ledger w = (objects w, filter high (events w))"

subsection \<open>Simulated collaborators\<close>

text \<open>
  A transport whose \<open>k\<close>-th \<open>Receive\<close> answers \<open>rx k\<close> and a codec whose \<open>k\<close>-th \<open>GetData\<close>
  answers \<open>gd k\<close>: the states count the calls. Sending never fails, the interface is
  HDLC, and \<open>UpdateValues\<close> stores \<open>vals ! i\<close> under \<open>list ! i\<close>.
\<close>

definition timeout :: received where
  "timeout = \<lparr>succeeded = False, rxErr = None, rxReply = None\<rparr>"

definition arrived :: "bytes \<Rightarrow> received" where
  "arrived bs = \<lparr>succeeded = True, rxErr = None, rxReply = Some bs\<rparr>"

definition finished :: "int \<Rightarrow> GXReplyData \<Rightarrow> parsed" where
  "finished code reply =
     \<lparr>complete = True, gdErr = None, gdBuffer = [],
      gdReply = reply\<lparr>Error := code, DataSize := 1\<rparr>, gdNotify = NewGXReplyData\<rparr>"

definition sim :: "(nat \<Rightarrow> received) \<Rightarrow> (nat \<Rightarrow> GXReplyData \<Rightarrow> parsed) \<Rightarrow> (nat, nat) env" where
  "sim rx gd =
     \<lparr>media_Send = (\<lambda>d m. (None, m)),
      media_Receive = (\<lambda>p m. (rx m, Suc m)),
      media_Close = (\<lambda>m. (None, m)),
      client_InterfaceType = (\<lambda>c. InterfaceTypeHDLC),
      client_GetFrameSize = (\<lambda>c rd. 1),
      client_GetData = (\<lambda>c rd reply notify. (gd c reply, Suc c)),
      client_ReceiverReady = (\<lambda>c reply. (Inr (Some [0x7E]), c)),
      client_ConnectionStateNone = (\<lambda>c. False),
      client_PreEstablishedConnection = (\<lambda>c. False),
      client_SecurityNone = (\<lambda>c. True),
      client_ReleaseRequest = (\<lambda>c. (Inr (Some [Some [0x62]]), c)),
      client_DisconnectRequest = (\<lambda>c. (Inr (Some [0x53]), c)),
      client_ReadList = (\<lambda>c list. (Inr (Some [Some [0xC0]]), c)),
      client_UpdateValues =
        (\<lambda>c list vals st. (None, c, fold (\<lambda>(k, v) s. s(k \<mapsto> v)) (zip list vals) st)),
      buffer_Set = (\<lambda>rd bs. (None, rd @ bs)),
      ErrorCodeRejected = - 2\<rparr>"

text \<open>
  Scripts: a transport that never delivers (and leaves \<open>p.Reply\<close> nil, or an empty
  slice), one that always delivers; a codec that completes every reply without an error,
  one that reports the first \<open>j\<close> replies as rejected, one that reports the error \<open>code\<close>
  for reply \<open>i\<close>, and one that never has a complete reply.
\<close>

definition never :: "nat \<Rightarrow> received" where
  "never k = timeout"

definition neverEmpty :: "nat \<Rightarrow> received" where
  "neverEmpty k = timeout\<lparr>rxReply := Some []\<rparr>"

definition always :: "nat \<Rightarrow> received" where
  "always k = arrived [1]"

definition accepting :: "nat \<Rightarrow> GXReplyData \<Rightarrow> parsed" where
  "accepting k = finished 0"

definition rejecting :: "nat \<Rightarrow> nat \<Rightarrow> GXReplyData \<Rightarrow> parsed" where
  "rejecting j k = finished (if k < j then - 2 else 0)"

definition failingAt :: "nat \<Rightarrow> int \<Rightarrow> nat \<Rightarrow> GXReplyData \<Rightarrow> parsed" where
  "failingAt i code k = finished (if k = i then code else 0)"

definition waiting :: "nat \<Rightarrow> GXReplyData \<Rightarrow> parsed" where
  "waiting k reply = (finished 0 reply)\<lparr>complete := False\<rparr>"

definition world0 :: "(nat, nat) world" where
  "world0 = \<lparr>mediaSt = 0, clientSt = 0, objects = (\<lambda>k. None), events = []\<rparr>"

definition reader0 :: GXDLMSReader where
  "reader0 = NewGXDLMSReader 5000"

subsection \<open>The block sequencer as the specification words it\<close>

text \<open>
  \<open>runSingleBlockWithContinuation\<close> as section 4.2 of the specification describes it, over
  any Frame Transaction \<open>txn\<close>: one transaction with the block; then, while more data is
  pending on a live or pre-established link, or nothing has arrived yet without an
  error (\<open>pending\<close>), one more transaction with the next outbound frame: none while the
  accumulator is streaming, otherwise the receiver-ready frame the codec builds from
  the accumulator (\<open>nextOutbound\<close>). A transaction that does not succeed, or a
  receiver-ready frame that cannot be built, ends the run with that outcome.
\<close>

type_synonym ('m, 'c) result = "error option outcome \<times> GXReplyData option \<times> ('m, 'c) world"

definition pending :: "('m, 'c) env \<Rightarrow> ('m, 'c) world \<Rightarrow> GXReplyData \<Rightarrow> bool" where
  "pending E w acc \<longleftrightarrow>
     (IsMoreData acc \<and>
        (\<not> client_ConnectionStateNone E (clientSt w) \<or> client_PreEstablishedConnection E (clientSt w)))
     \<or> (Error acc = 0 \<and> DataSize acc = 0)"

definition nextOutbound ::
  "('m, 'c) env \<Rightarrow> GXReplyData \<Rightarrow> ('m, 'c) world \<Rightarrow> (error + frame) \<times> ('m, 'c) world" where
  "nextOutbound E acc w = (if IsStreaming acc then (Inr None, w) else ReceiverReady E acc w)"

inductive continuation ::
  "(frame \<Rightarrow> GXReplyData \<Rightarrow> ('m, 'c) world \<Rightarrow> ('m, 'c) result \<Rightarrow> bool) \<Rightarrow> ('m, 'c) env
     \<Rightarrow> GXReplyData \<Rightarrow> ('m, 'c) world \<Rightarrow> ('m, 'c) result \<Rightarrow> bool"
  for txn :: "frame \<Rightarrow> GXReplyData \<Rightarrow> ('m, 'c) world \<Rightarrow> ('m, 'c) result \<Rightarrow> bool"
    and E :: "('m, 'c) env"
where
  assembled:
    "\<not> pending E w acc \<Longrightarrow> continuation txn E acc w (Returns None, Some acc, w)"
| no_frame:
    "pending E w acc \<Longrightarrow> nextOutbound E acc w = (Inl e, w1)
     \<Longrightarrow> continuation txn E acc w (Returns (Some e), Some acc, w1)"
| failed:
    "pending E w acc \<Longrightarrow> nextOutbound E acc w = (Inr f, w1)
     \<Longrightarrow> txn f acc w1 (out, acc', w') \<Longrightarrow> out \<noteq> Returns None
     \<Longrightarrow> continuation txn E acc w (out, acc', w')"
| again:
    "pending E w acc \<Longrightarrow> nextOutbound E acc w = (Inr f, w1)
     \<Longrightarrow> txn f acc w1 (Returns None, Some acc', w') \<Longrightarrow> continuation txn E acc' w' res
     \<Longrightarrow> continuation txn E acc w res"

inductive runSingleBlockWithContinuation ::
  "(frame \<Rightarrow> GXReplyData \<Rightarrow> ('m, 'c) world \<Rightarrow> ('m, 'c) result \<Rightarrow> bool) \<Rightarrow> ('m, 'c) env
     \<Rightarrow> frame \<Rightarrow> GXReplyData \<Rightarrow> ('m, 'c) world \<Rightarrow> ('m, 'c) result \<Rightarrow> bool"
  for txn :: "frame \<Rightarrow> GXReplyData \<Rightarrow> ('m, 'c) world \<Rightarrow> ('m, 'c) result \<Rightarrow> bool"
    and E :: "('m, 'c) env"
where
  first_failed:
    "txn block acc w (out, acc', w') \<Longrightarrow> out \<noteq> Returns None
     \<Longrightarrow> runSingleBlockWithContinuation txn E block acc w (out, acc', w')"
| first_done:
    "txn block acc w (Returns None, Some acc', w') \<Longrightarrow> continuation txn E acc' w' res
     \<Longrightarrow> runSingleBlockWithContinuation txn E block acc w res"



text \<open>The calls of \<open>ReadDataBlock\<close> so far: the frame and the accumulator each was given.\<close>

fun runsOf :: "event list \<Rightarrow> (frame \<times> GXReplyData option) list" where
  "runsOf [] = []"
| "runsOf (EnterReadDataBlock f a # es) = (f, a) # runsOf es"
| "runsOf (e # es) = runsOf es"

definition blockRuns :: "('m, 'c) world \<Rightarrow> (frame \<times> GXReplyData option) list" where
  "blockRuns w = runsOf (events w)"

text \<open>The calls of \<open>UpdateValues\<close> so far: the list and the values each was given.\<close>

fun appliedOf :: "event list \<Rightarrow> (attr_list \<times> any list) list" where
  "appliedOf [] = []"
| "appliedOf (ValuesUpdated list vals # es) = (list, vals) # appliedOf es"
| "appliedOf (e # es) = appliedOf es"

definition applied :: "('m, 'c) world \<Rightarrow> (attr_list \<times> any list) list" where
  "applied w = appliedOf (events w)"

text \<open>Of a call of \<open>ReadList\<close>: how it ended, and what has been applied.\<close>

definition withApplied ::
  "('a \<times> ('m, 'c) world) option \<Rightarrow> ('a \<times> (attr_list \<times> any list) list) option" where
  "withApplied res = map_option (\<lambda>(out, w). (out, applied w)) res"

text \<open>
  More simulated codecs: one whose \<open>UpdateValues\<close> fails, one that decodes every reply to
  the values \<open>vs\<close>, one on a WRAPPER interface whose release request cannot be built,
  and one whose disconnect request cannot be built.
\<close>

definition refusing :: "nat \<Rightarrow> (nat, nat) env \<Rightarrow> (nat, nat) env" where
  "refusing k E = E\<lparr>client_UpdateValues := (\<lambda>c list vals st. (Some k, c, st))\<rparr>"

definition valued :: "any list \<Rightarrow> nat \<Rightarrow> GXReplyData \<Rightarrow> parsed" where
  "valued vs k reply =
     \<lparr>complete = True, gdErr = None, gdBuffer = [],
      gdReply = reply\<lparr>Value := Some (Array vs), DataSize := 1\<rparr>, gdNotify = NewGXReplyData\<rparr>"

definition wrapped :: "(nat, nat) env \<Rightarrow> (nat, nat) env" where
  "wrapped E = E\<lparr>client_InterfaceType := (\<lambda>c. InterfaceTypeWRAPPER),
                 client_ReleaseRequest := (\<lambda>c. (Inl 9, c))\<rparr>"

definition undisconnectable :: "(nat, nat) env \<Rightarrow> (nat, nat) env" where
  "undisconnectable E = E\<lparr>client_DisconnectRequest := (\<lambda>c. (Inl 4, c))\<rparr>"

text \<open>
  Two more scripts, for a disconnect exchange that does not come back: a transport that
  reports a reply as received and leaves \<open>p.Reply\<close> nil, and a codec that reports every
  reply as rejected. Of a call of \<open>Close\<close>: how it ended, whether the reader still holds
  its media, and what has happened in the world.
\<close>

definition hollow :: "nat \<Rightarrow> received" where
  "hollow k = \<lparr>succeeded = True, rxErr = None, rxReply = None\<rparr>"

definition stubborn :: "nat \<Rightarrow> GXReplyData \<Rightarrow> parsed" where
  "stubborn k = finished (- 2)"

definition afterClose ::
  "('a \<times> GXDLMSReader \<times> ('m, 'c) world) option \<Rightarrow> ('a \<times> bool \<times> event list) option" where
  "afterClose res = map_option (\<lambda>(out, r, w). (out, media r, events w)) res"


section \<open>Properties\<close>

subsection \<open>Where \<open>packet is empty\<close> comes from\<close>

lemma Send_PacketIsEmpty: "Send E data w = (Some PacketIsEmpty, w') \<Longrightarrow> False"
  by (auto simp: Send_def split: prod.splits)

lemma sendLoop_PacketIsEmpty:
  "sendLoop n E r data reply ok a p w = Some (Exit (Returns (Some PacketIsEmpty)), w')
   \<Longrightarrow> len data = 0 \<and> \<not> IsStreaming reply"
proof (induction n arbitrary: ok a p w)
  case 0
  then show ?case by simp
next
  case (Suc n)
  from Suc.prems show ?case
    apply (simp only: sendLoop.simps split: if_split_asm prod.split_asm option.split_asm)
    by (auto dest!: Suc.IH Send_PacketIsEmpty)
qed

lemma receiveLoop_PacketIsEmpty:
  "receiveLoop E r data a p w = (Exit (Returns (Some PacketIsEmpty)), w') \<Longrightarrow> False"
proof (induction "nat (RetryCount r - a)" arbitrary: a p w rule: less_induct)
  case less
  have step: "\<not> RetryCount r \<le> a + 1 \<Longrightarrow> nat (RetryCount r - (a + 1)) < nat (RetryCount r - a)"
    by simp
  from less.prems show ?case
    apply (subst (asm) receiveLoop.simps)
    apply (simp only: split: if_split_asm prod.split_asm option.split_asm)
    by (auto dest!: less.hyps[OF step] Send_PacketIsEmpty)
qed

lemma parseLoop_PacketIsEmpty:
  "parseLoop n E r data rd reply notify a p w = Some (Exit (Returns (Some PacketIsEmpty)), reply', w')
   \<Longrightarrow> False"
proof (induction n arbitrary: rd reply notify a p w)
  case 0
  then show ?case by simp
next
  case (Suc n)
  from Suc.prems show ?case
    apply (simp only: parseLoop.simps Let_def split: if_split_asm prod.split_asm option.split_asm flow.split_asm)
    by (auto dest!: Suc.IH receiveLoop_PacketIsEmpty)
qed

lemma ReadDLMSPacket_PacketIsEmpty:
  "ReadDLMSPacket n E r data reply w = Some (Returns (Some PacketIsEmpty), reply', w')
   \<Longrightarrow> data = Some []"
proof (induction n arbitrary: reply w)
  case 0
  then show ?case by simp
next
  case (Suc n)
  show ?case
  proof (cases reply)
    case None
    with Suc.prems show ?thesis by simp
  next
    case (Some rp)
    from Suc.prems[unfolded Some] show ?thesis
      apply (simp only: ReadDLMSPacket.simps Let_def split: if_split_asm prod.split_asm option.split_asm flow.split_asm)
      by (auto dest!: Suc.IH sendLoop_PacketIsEmpty parseLoop_PacketIsEmpty simp: len_def split: option.splits list.splits)
  qed
qed

text \<open>
  C9. With a nil frame and an accumulator that is not streaming, \<open>ReadDLMSPacket\<close>
  returns nil at once, whatever the fuel: nothing is sent or received (the world is the
  same) and the accumulator is the same. A non-nil empty frame is refused as
  \<open>packet is empty\<close> before anything is sent, and no other frame is ever refused so.
\<close>

theorem nil_frame_returns_at_once:
  "(\<not> IsStreaming reply \<longrightarrow>
      ReadDLMSPacket (Suc n) E r None (Some reply) w = Some (Returns None, Some reply, w)) \<and>
   (client r \<and> media r \<and> \<not> IsStreaming reply \<longrightarrow>
      ReadDLMSPacket (Suc (Suc n)) E r (Some []) (Some reply) w =
        Some (Returns (Some PacketIsEmpty), Some (reply\<lparr>Error := 0\<rparr>), w)) \<and>
   (ReadDLMSPacket k E r data acc w = Some (Returns (Some PacketIsEmpty), acc', w') \<longrightarrow>
      data = Some [])"
  by (simp add: len_def ReadDLMSPacket_PacketIsEmpty)

theorem nil_frame_returns_at_once_witness:
  "\<not> IsStreaming NewGXReplyData \<and> client reader0 \<and> media reader0 \<and>
   ReadDLMSPacket (Suc 0) (sim never accepting) reader0 None (Some NewGXReplyData) world0 =
     Some (Returns None, Some NewGXReplyData, world0) \<and>
   ReadDLMSPacket (Suc (Suc 0)) (sim never accepting) reader0 (Some []) (Some NewGXReplyData) world0 =
     Some (Returns (Some PacketIsEmpty), Some (NewGXReplyData\<lparr>Error := 0\<rparr>), world0) \<and>
   (Some [] :: frame) = Some []"
  using nil_frame_returns_at_once [of NewGXReplyData 0 "sim never accepting" reader0 world0
      "Suc (Suc 0)" "Some []" "Some NewGXReplyData" "Some (NewGXReplyData\<lparr>Error := 0\<rparr>)" world0]
  by (simp add: NewGXReplyData_def reader0_def NewGXDLMSReader_def)

subsection \<open>The preconditions of \<open>ReadDLMSPacket\<close>\<close>

lemmas sim_simps = sim_def timeout_def arrived_def finished_def world0_def reader0_def
  NewGXDLMSReader_def NewGXReplyData_def Clear_def never_def neverEmpty_def always_def
  accepting_def rejecting_def failingAt_def waiting_def

lemmas call_simps = Send_def Receive_def GetData_def ReceiverReady_def UpdateValues_def emit_def
  writeTrace_def len_def frame_bytes_def sends_def sleeps_def Let_def

text \<open>
  While the accumulator is streaming the first loop has nothing to do and nothing to
  stop it: the call does not return.
\<close>

lemma sendLoop_streaming:
  "IsStreaming reply \<Longrightarrow> sendLoop n E r data reply False 0 p w = None"
  by (induction n) auto

lemma ReadDLMSPacket_streaming:
  "IsStreaming reply \<Longrightarrow> client r \<Longrightarrow> media r \<Longrightarrow> ReadDLMSPacket n E r data (Some reply) w = None"
  by (cases n) (simp_all add: Let_def sendLoop_streaming)

lemma ReadDLMSPacket_streaming_not_empty:
  "IsStreaming reply \<Longrightarrow>
   ReadDLMSPacket k E r data (Some reply) w \<noteq> Some (Returns (Some PacketIsEmpty), acc', w')"
  by (cases k) (simp_all add: Let_def sendLoop_streaming)

text \<open>
  C5, as stated, fails: a nil frame is an empty frame, the accumulator is not streaming,
  and the call returns nil instead of \<open>packet is empty\<close>.
\<close>

theorem nil_frame_accepted:
  "len None = 0 \<and> \<not> IsStreaming NewGXReplyData \<and>
   ReadDLMSPacket (Suc 0) (sim never accepting) reader0 None (Some NewGXReplyData) world0 =
     Some (Returns None, Some NewGXReplyData, world0)"
  by (simp add: len_def NewGXReplyData_def)

text \<open>
  C5, amended. A nil accumulator is refused at once with \<open>reply is nil\<close>. While the
  accumulator is not streaming, an empty frame that is not nil is refused with
  \<open>packet is empty\<close> before anything is sent, and a nil frame is accepted: the call returns
  nil at once. While the accumulator is streaming, no frame is refused as empty.
\<close>

theorem frame_preconditions:
  "ReadDLMSPacket (Suc n) E r data None w = Some (Returns (Some ReplyIsNil), None, w) \<and>
   (client r \<and> media r \<and> \<not> IsStreaming reply \<longrightarrow>
      ReadDLMSPacket (Suc (Suc n)) E r (Some []) (Some reply) w =
        Some (Returns (Some PacketIsEmpty), Some (reply\<lparr>Error := 0\<rparr>), w)) \<and>
   (\<not> IsStreaming reply \<longrightarrow>
      ReadDLMSPacket (Suc n) E r None (Some reply) w = Some (Returns None, Some reply, w)) \<and>
   (IsStreaming reply \<longrightarrow>
      ReadDLMSPacket k E r data (Some reply) w \<noteq> Some (Returns (Some PacketIsEmpty), acc', w'))"
  by (simp add: len_def ReadDLMSPacket_streaming_not_empty)

theorem frame_preconditions_witness:
  "ReadDLMSPacket (Suc 0) (sim never accepting) reader0 (Some [1]) None world0 =
     Some (Returns (Some ReplyIsNil), None, world0) \<and>
   client reader0 \<and> media reader0 \<and> \<not> IsStreaming NewGXReplyData \<and>
   ReadDLMSPacket (Suc (Suc 0)) (sim never accepting) reader0 (Some [])
       (Some NewGXReplyData) world0 =
     Some (Returns (Some PacketIsEmpty), Some (NewGXReplyData\<lparr>Error := 0\<rparr>), world0) \<and>
   ReadDLMSPacket (Suc 0) (sim never accepting) reader0 None
       (Some NewGXReplyData) world0 =
     Some (Returns None, Some NewGXReplyData, world0) \<and>
   IsStreaming (NewGXReplyData\<lparr>IsStreaming := True\<rparr>) \<and>
   ReadDLMSPacket 5 (sim never accepting) reader0 (Some [])
       (Some (NewGXReplyData\<lparr>IsStreaming := True\<rparr>)) world0 \<noteq>
     Some (Returns (Some PacketIsEmpty), None, world0)"
  using frame_preconditions [of 0 "sim never accepting" reader0 "Some [1]" world0
      NewGXReplyData]
    frame_preconditions [of 0 "sim never accepting" reader0 "Some []" world0
      "NewGXReplyData\<lparr>IsStreaming := True\<rparr>" 5 None world0]
  by (simp add: NewGXReplyData_def reader0_def NewGXDLMSReader_def)

subsection \<open>Counting what goes over the wire\<close>

lemma sends_emit [simp]:
  "sends (emit e w) = (case e of Sent d \<Rightarrow> Suc (sends w) | _ \<Rightarrow> sends w)"
  by (simp add: sends_def emit_def split: event.split)

lemma sleeps_emit [simp]: "sleeps (emit e w) = (if e = Slept then Suc (sleeps w) else sleeps w)"
  by (simp add: sleeps_def emit_def)

lemma counts_upd [simp]:
  "sends (w\<lparr>mediaSt := m\<rparr>) = sends w" "sends (w\<lparr>clientSt := c\<rparr>) = sends w"
  "sleeps (w\<lparr>mediaSt := m\<rparr>) = sleeps w" "sleeps (w\<lparr>clientSt := c\<rparr>) = sleeps w"
  "sends (writeTrace l w) = sends w" "sleeps (writeTrace l w) = sleeps w"
  by (simp_all add: sends_def sleeps_def writeTrace_def emit_def)

lemma emit_fields [simp]:
  "clientSt (emit e w) = clientSt w" "mediaSt (emit e w) = mediaSt w"
  "objects (emit e w) = objects w" "events (emit e w) = events w @ [e]"
  by (simp_all add: emit_def)

lemma writeTrace_fields [simp]:
  "clientSt (writeTrace l w) = clientSt w" "mediaSt (writeTrace l w) = mediaSt w"
  "objects (writeTrace l w) = objects w"
  by (simp_all add: writeTrace_def)

lemma Send_sends: "Send E data w = (e, w') \<Longrightarrow> sends w' = Suc (sends w) \<and> sleeps w' = sleeps w \<and> clientSt w' = clientSt w"
  by (auto simp: Send_def split: prod.splits)

lemma Receive_sends: "Receive E p w = (rx, w') \<Longrightarrow> sends w' = sends w \<and> sleeps w' = sleeps w \<and> clientSt w' = clientSt w"
  by (auto simp: Receive_def split: prod.splits)

lemma Send_never_fails:
  "\<forall>d m. fst (media_Send E d m) = None \<Longrightarrow> fst (Send E data w) = None"
  by (simp add: Send_def split: prod.split) (metis fst_conv)

lemma Receive_never_succeeds:
  "\<forall>p m. \<not> succeeded (fst (media_Receive E p m)) \<and> rxErr (fst (media_Receive E p m)) = None
   \<Longrightarrow> \<not> succeeded (fst (Receive E p w)) \<and> rxErr (fst (Receive E p w)) = None"
  by (simp add: Receive_def split: prod.split) (metis fst_conv)

subsection \<open>The retry bound\<close>

text \<open>
  With a bound between 1 and 3, a transport that never delivers is sent the frame
  \<open>RetryCount\<close> times, and the call fails with \<open>ReceiveFailed\<close>.
\<close>

lemma sendLoop_never_received:
  assumes tx: "\<forall>d m. fst (media_Send E d m) = None"
    and rx: "\<forall>p m. \<not> succeeded (fst (media_Receive E p m)) \<and> rxErr (fst (media_Receive E p m)) = None"
    and ns: "\<not> IsStreaming reply" and ne: "len data \<noteq> 0"
    and hi: "RetryCount r \<le> 3"
  shows "a < RetryCount r \<Longrightarrow> nat (RetryCount r - a) = n \<Longrightarrow>
    \<exists>w'. sendLoop (n + k) E r data reply False a p w = Some (Exit (Returns (Some ReceiveFailed)), w')
         \<and> sends w' = sends w + n"
proof (induction n arbitrary: a p w)
  case 0
  then show ?case by simp
next
  case (Suc n)
  obtain e w1 where S: "Send E data (writeTrace (TX data) w) = (e, w1)"
    by (cases "Send E data (writeTrace (TX data) w)")
  have e: "e = None" using Send_never_fails[OF tx, of data "writeTrace (TX data) w"] S by simp
  obtain x w2 where R: "Receive E p w1 = (x, w2)" by (cases "Receive E p w1")
  have x: "\<not> succeeded x" "rxErr x = None" using Receive_never_succeeds[OF rx, of p w1] R by simp_all
  have c: "sends w2 = Suc (sends w)" using Send_sends[OF S] Receive_sends[OF R] by simp
  have a3: "a \<noteq> 3" using Suc.prems hi by simp
  show ?case
  proof (cases "RetryCount r \<le> a + 1")
    case True
    then have "n = 0" using Suc.prems by simp
    then show ?thesis using S e R x c a3 ns ne True by simp
  next
    case False
    then have "a + 1 < RetryCount r" "nat (RetryCount r - (a + 1)) = n" using Suc.prems by simp_all
    from Suc.IH[OF this] obtain w' where
      "sendLoop (n + k) E r data reply False (a + 1)
         (if EOP p = None then p\<lparr>Reply := rxReply x, Count := 1\<rparr> else p\<lparr>Reply := rxReply x\<rparr>) w2 =
       Some (Exit (Returns (Some ReceiveFailed)), w')" "sends w' = sends w2 + n"
      by blast
    then show ?thesis using S e R x c a3 ns ne False by simp
  qed
qed

lemma retry_bound_up_to_three:
  assumes tx: "\<forall>d m. fst (media_Send E d m) = None"
    and rx: "\<forall>p m. \<not> succeeded (fst (media_Receive E p m)) \<and> rxErr (fst (media_Receive E p m)) = None"
    and cm: "client r" "media r" and ns: "\<not> IsStreaming reply" and ne: "len data \<noteq> 0"
    and lo: "1 \<le> RetryCount r" and hi: "RetryCount r \<le> 3"
  shows "\<exists>w'. ReadDLMSPacket (Suc (nat (RetryCount r) + k)) E r data (Some reply) w =
            Some (Returns (Some ReceiveFailed), Some (reply\<lparr>Error := 0\<rparr>), w')
          \<and> sends w' = sends w + nat (RetryCount r)"
proof -
  let ?eop = "if client_InterfaceType E (clientSt w) \<noteq> InterfaceTypeHDLC \<and>
                 client_InterfaceType E (clientSt w) \<noteq> InterfaceTypeHdlcWithModeE
              then None else Some (0x7E :: byte)"
  let ?p = "\<lparr>EOP = ?eop, Count = client_GetFrameSize E (clientSt w) [], AllData = True,
             WaitTimeP = WaitTime r, Reply = None\<rparr>"
  have ns0: "\<not> IsStreaming (reply\<lparr>Error := 0\<rparr>)" using ns by simp
  have d: "data \<noteq> None" using ne by (cases data) (simp_all add: len_def)
  from sendLoop_never_received[OF tx rx ns0 ne hi, of 0 "nat (RetryCount r)" k ?p w] lo
  obtain w' where
    "sendLoop (nat (RetryCount r) + k) E r data (reply\<lparr>Error := 0\<rparr>) False 0 ?p w =
       Some (Exit (Returns (Some ReceiveFailed)), w')" "sends w' = sends w + nat (RetryCount r)"
    by auto
  then show ?thesis using cm d by (simp add: Let_def)
qed

text \<open>
  With a bound above 3 the first loop is left after the third send: not with the error,
  but to go on with line 399 although nothing has been received.
\<close>

lemma sendLoop_stops_at_three:
  assumes tx: "\<forall>d m. fst (media_Send E d m) = None"
    and rx: "\<forall>p m. \<not> succeeded (fst (media_Receive E p m)) \<and> rxErr (fst (media_Receive E p m)) = None"
    and ns: "\<not> IsStreaming reply" and ne: "len data \<noteq> 0"
    and hi: "3 < RetryCount r"
  shows "0 \<le> a \<Longrightarrow> a \<le> 3 \<Longrightarrow> nat (3 - a) = n \<Longrightarrow>
    \<exists>p' w'. sendLoop (Suc n + k) E r data reply False a p w = Some (Next (False, p'), w')
         \<and> sends w' = sends w + n"
proof (induction n arbitrary: a p w)
  case 0
  then have "a = 3" by simp
  then show ?case by simp
next
  case (Suc n)
  obtain e w1 where S: "Send E data (writeTrace (TX data) w) = (e, w1)"
    by (cases "Send E data (writeTrace (TX data) w)")
  have e: "e = None" using Send_never_fails[OF tx, of data "writeTrace (TX data) w"] S by simp
  obtain x w2 where R: "Receive E p w1 = (x, w2)" by (cases "Receive E p w1")
  have x: "\<not> succeeded x" "rxErr x = None" using Receive_never_succeeds[OF rx, of p w1] R by simp_all
  have c: "sends w2 = Suc (sends w)" using Send_sends[OF S] Receive_sends[OF R] by simp
  have a3: "a \<noteq> 3" "\<not> RetryCount r \<le> a + 1" using Suc.prems hi by simp_all
  have "0 \<le> a + 1" "a + 1 \<le> 3" "nat (3 - (a + 1)) = n" using Suc.prems by simp_all
  from Suc.IH[OF this] obtain p' w' where
    "sendLoop (Suc n + k) E r data reply False (a + 1)
       (if EOP p = None then p\<lparr>Reply := rxReply x, Count := 1\<rparr> else p\<lparr>Reply := rxReply x\<rparr>) w2 =
     Some (Next (False, p'), w')" "sends w' = sends w2 + n"
    by blast
  then show ?case using S e R x c a3 ns ne by simp
qed

text \<open>
  C1. The first loop also stops at the literal 3 (\<open>attempt != 3\<close>, line 371), so a bound
  above 3 is not honoured. With \<open>RetryCount = 5\<close> and a transport that never delivers,
  the loop is left after the third send with no error, and line 399 goes on with
  \<open>p.Reply\<close>: while that holds no bytes the type assertion panics; when the transport
  leaves an empty slice there and the codec waits for more, the inner loop, which has no
  such literal, sends four more times before it gives up. Neither run makes 5 sends.
\<close>

theorem retry_bound_five:
  "onWire (ReadDLMSPacket 10 (sim never accepting) (reader0\<lparr>RetryCount := 5\<rparr>)
        (Some [1]) (Some NewGXReplyData) world0) = Some (Panics, 3, 0) \<and>
   onWire (ReadDLMSPacket 10 (sim neverEmpty waiting) (reader0\<lparr>RetryCount := 5\<rparr>)
        (Some [1]) (Some NewGXReplyData) world0) = Some (Returns (Some ReceiveFailed), 7, 0)"
  by (simp add: eval_nat_numeral sim_simps call_simps receiveLoop.simps onWire_def)

subsection \<open>A rejected reply\<close>

text \<open>
  C2, as stated, fails: the retry after a rejected reply is not limited to one. On a
  transport that answers every send, an exchange that is not rejected sends once; when
  the device rejects twice, the call sleeps twice and sends three times, not twice.
\<close>

theorem rejected_twice:
  "onWire (ReadDLMSPacket 10 (sim always accepting) reader0
        (Some [1]) (Some NewGXReplyData) world0) = Some (Returns None, 1, 0) \<and>
   onWire (ReadDLMSPacket 10 (sim always (rejecting 2)) reader0
        (Some [1]) (Some NewGXReplyData) world0) = Some (Returns None, 3, 2)"
  by (simp add: eval_nat_numeral sim_simps call_simps receiveLoop.simps onWire_def)

lemma Receive_always_succeeds:
  "\<forall>p m. succeeded (fst (media_Receive E p m)) \<and> rxErr (fst (media_Receive E p m)) = None \<and>
          rxReply (fst (media_Receive E p m)) \<noteq> None
   \<Longrightarrow> succeeded (fst (Receive E p w)) \<and> rxErr (fst (Receive E p w)) = None \<and>
       rxReply (fst (Receive E p w)) \<noteq> None"
  by (simp add: Receive_def split: prod.split) (metis fst_conv)

lemma sendLoop_answered:
  assumes tx: "\<forall>d m. fst (media_Send E d m) = None"
    and rx: "\<forall>p m. succeeded (fst (media_Receive E p m)) \<and> rxErr (fst (media_Receive E p m)) = None \<and>
          rxReply (fst (media_Receive E p m)) \<noteq> None"
    and ns: "\<not> IsStreaming reply" and ne: "len data \<noteq> 0"
  shows "\<exists>p' w1. sendLoop (Suc (Suc n)) E r data reply False 0 p w = Some (Next (True, p'), w1) \<and>
           Reply p' \<noteq> None \<and> sends w1 = Suc (sends w) \<and> sleeps w1 = sleeps w \<and>
           clientSt w1 = clientSt w"
proof -
  obtain e w1 where S: "Send E data (writeTrace (TX data) w) = (e, w1)"
    by (cases "Send E data (writeTrace (TX data) w)")
  have e: "e = None" using Send_never_fails[OF tx, of data "writeTrace (TX data) w"] S by simp
  obtain x w2 where R: "Receive E p w1 = (x, w2)" by (cases "Receive E p w1")
  have x: "succeeded x" "rxErr x = None" "rxReply x \<noteq> None"
    using Receive_always_succeeds[OF rx, of p w1] R by simp_all
  have c: "sends w2 = Suc (sends w)" "sleeps w2 = sleeps w" "clientSt w2 = clientSt w"
    using Send_sends[OF S] Receive_sends[OF R] by simp_all
  show ?thesis using S e R x c ns ne by simp
qed

lemma parseLoop_completes:
  assumes "complete (fst (client_GetData E (clientSt w) rd reply notify))"
    and "gdErr (fst (client_GetData E (clientSt w) rd reply notify)) = None"
  shows "parseLoop (Suc n) E r data rd reply notify a p w =
           Some (Next (gdBuffer (fst (client_GetData E (clientSt w) rd reply notify))),
                 gdReply (fst (client_GetData E (clientSt w) rd reply notify)),
                 w\<lparr>clientSt := snd (client_GetData E (clientSt w) rd reply notify)\<rparr>)"
proof -
  obtain pr c' where G: "client_GetData E (clientSt w) rd reply notify = (pr, c')"
    by (cases "client_GetData E (clientSt w) rd reply notify")
  then show ?thesis using assms by (simp add: GetData_def)
qed


text \<open>
  C2, amended. Every completed reply that carries \<open>ErrorCodeRejected\<close> makes
  \<open>ReadDLMSPacket\<close> sleep for a second and run the whole exchange again, as often as the
  device rejects: on a transport that answers every send and a codec that completes
  every reply at once, \<open>j\<close> rejected replies in a row cost \<open>j\<close> pauses and \<open>j + 1\<close> sends
  (twice the single send for \<open>j = 1\<close>), and the first reply that is not rejected ends the
  call: with nil for the code 0, with the device error for any other code, which is
  therefore never retried (\<open>j = 0\<close>). \<open>rej c\<close> is the number of replies the codec in state
  \<open>c\<close> will still reject, \<open>final\<close> the code of the reply after them.
\<close>

theorem rejected_retries:
  assumes tx: "\<forall>d m. fst (media_Send E d m) = None"
    and rx: "\<forall>p m. succeeded (fst (media_Receive E p m)) \<and> rxErr (fst (media_Receive E p m)) = None \<and>
          rxReply (fst (media_Receive E p m)) \<noteq> None"
    and bs: "\<forall>rd b. fst (buffer_Set E rd b) = None"
    and gd: "\<forall>c rd rp nt.
          complete (fst (client_GetData E c rd rp nt)) \<and>
          gdErr (fst (client_GetData E c rd rp nt)) = None \<and>
          (\<not> IsStreaming rp \<longrightarrow> \<not> IsStreaming (gdReply (fst (client_GetData E c rd rp nt)))) \<and>
          (if rej c = 0 then Error (gdReply (fst (client_GetData E c rd rp nt))) = final
           else Error (gdReply (fst (client_GetData E c rd rp nt))) = ErrorCodeRejected E \<and>
                rej (snd (client_GetData E c rd rp nt)) = rej c - 1)"
    and rz: "ErrorCodeRejected E \<noteq> 0" and fin: "final \<noteq> ErrorCodeRejected E"
    and cm: "client r" "media r" and ne: "len data \<noteq> 0"
  shows "\<not> IsStreaming reply \<Longrightarrow> rej (clientSt w) = j \<Longrightarrow>
    \<exists>rp' w'. ReadDLMSPacket (j + 3 + k) E r data (Some reply) w =
        Some (Returns (if final = 0 then None else Some (DlmsError final)), Some rp', w') \<and>
      sends w' = sends w + j + 1 \<and> sleeps w' = sleeps w + j"
proof (induction j arbitrary: reply w)
  case 0
  let ?eop = "if client_InterfaceType E (clientSt w) \<noteq> InterfaceTypeHDLC \<and>
                 client_InterfaceType E (clientSt w) \<noteq> InterfaceTypeHdlcWithModeE
              then None else Some (0x7E :: byte)"
  let ?p = "\<lparr>EOP = ?eop, Count = client_GetFrameSize E (clientSt w) [], AllData = True,
             WaitTimeP = WaitTime r, Reply = None\<rparr>"
  have d: "data \<noteq> None" using ne by (cases data) (simp_all add: len_def)
  have ns0: "\<not> IsStreaming (reply\<lparr>Error := 0\<rparr>)" using 0 by simp
  from sendLoop_answered[OF tx rx ns0 ne, of k r ?p w]
  obtain p' w1 where sl: "sendLoop (Suc (Suc k)) E r data (reply\<lparr>Error := 0\<rparr>) False 0 ?p w =
      Some (Next (True, p'), w1)" and p': "Reply p' \<noteq> None"
    and c1: "sends w1 = Suc (sends w)" "sleeps w1 = sleeps w" "clientSt w1 = clientSt w"
    by blast
  obtain b where b: "Reply p' = Some b" using p' by blast
  obtain rd where rd: "buffer_Set E [] b = (None, rd)" using bs by (metis fst_conv surj_pair)
  let ?g = "client_GetData E (clientSt w1) rd (reply\<lparr>Error := 0\<rparr>) NewGXReplyData"
  have g: "complete (fst ?g)" "gdErr (fst ?g) = None" "Error (gdReply (fst ?g)) = final"
    using gd 0 c1 by (metis (no_types))+
  have pl: "parseLoop (Suc (Suc k)) E r data rd (reply\<lparr>Error := 0\<rparr>) NewGXReplyData 0 p' w1 =
      Some (Next (gdBuffer (fst ?g)), gdReply (fst ?g), w1\<lparr>clientSt := snd ?g\<rparr>)"
    using parseLoop_completes[OF g(1,2)] .
  have f: "0 + 3 + k = Suc (Suc (Suc k))" by simp
  show ?case unfolding f
    apply (subst ReadDLMSPacket.simps)
    using sl b rd pl g(3) cm d 0 c1 fin
    by (simp add: Let_def del: sendLoop.simps parseLoop.simps ReadDLMSPacket.simps)
next
  case (Suc j)
  let ?eop = "if client_InterfaceType E (clientSt w) \<noteq> InterfaceTypeHDLC \<and>
                 client_InterfaceType E (clientSt w) \<noteq> InterfaceTypeHdlcWithModeE
              then None else Some (0x7E :: byte)"
  let ?p = "\<lparr>EOP = ?eop, Count = client_GetFrameSize E (clientSt w) [], AllData = True,
             WaitTimeP = WaitTime r, Reply = None\<rparr>"
  have d: "data \<noteq> None" using ne by (cases data) (simp_all add: len_def)
  have ns0: "\<not> IsStreaming (reply\<lparr>Error := 0\<rparr>)" using Suc.prems by simp
  from sendLoop_answered[OF tx rx ns0 ne, of "Suc (j + k)" r ?p w]
  obtain p' w1 where sl: "sendLoop (Suc (Suc (Suc (j + k)))) E r data (reply\<lparr>Error := 0\<rparr>) False 0 ?p w =
      Some (Next (True, p'), w1)" and p': "Reply p' \<noteq> None"
    and c1: "sends w1 = Suc (sends w)" "sleeps w1 = sleeps w" "clientSt w1 = clientSt w"
    by blast
  obtain b where b: "Reply p' = Some b" using p' by blast
  obtain rd where rd: "buffer_Set E [] b = (None, rd)" using bs by (metis fst_conv surj_pair)
  let ?g = "client_GetData E (clientSt w1) rd (reply\<lparr>Error := 0\<rparr>) NewGXReplyData"
  have rj: "rej (clientSt w1) = Suc j" using Suc.prems c1 by simp
  have g: "complete (fst ?g)" "gdErr (fst ?g) = None" "\<not> IsStreaming (gdReply (fst ?g))"
    using gd ns0 by (metis (no_types))+
  have g': "Error (gdReply (fst ?g)) = ErrorCodeRejected E" "rej (snd ?g) = j"
    using gd[rule_format, of "clientSt w1" rd "reply\<lparr>Error := 0\<rparr>" NewGXReplyData] rj by simp_all
  have pl: "parseLoop (Suc (Suc (Suc (j + k)))) E r data rd (reply\<lparr>Error := 0\<rparr>) NewGXReplyData 0 p' w1 =
      Some (Next (gdBuffer (fst ?g)), gdReply (fst ?g), w1\<lparr>clientSt := snd ?g\<rparr>)"
    using parseLoop_completes[OF g(1,2)] .
  let ?w3 = "emit Slept (writeTrace (RX (gdBuffer (fst ?g))) (w1\<lparr>clientSt := snd ?g\<rparr>))"
  have "rej (clientSt ?w3) = j" using g' by simp
  from Suc.IH[OF g(3) this] obtain rp' w' where
    ih: "ReadDLMSPacket (j + 3 + k) E r data (Some (gdReply (fst ?g))) ?w3 =
        Some (Returns (if final = 0 then None else Some (DlmsError final)), Some rp', w')"
      "sends w' = sends ?w3 + j + 1" "sleeps w' = sleeps ?w3 + j"
    by blast
  have f: "Suc j + 3 + k = Suc (Suc (Suc (Suc (j + k))))" "j + 3 + k = Suc (Suc (Suc (j + k)))"
    by simp_all
  show ?case unfolding f(1)
    apply (subst ReadDLMSPacket.simps)
    using sl b rd pl g' rz cm d Suc.prems c1 ih[unfolded f(2)]
    by (simp add: Let_def del: sendLoop.simps parseLoop.simps ReadDLMSPacket.simps)
qed


theorem rejected_retries_witness:
  "ErrorCodeRejected (sim always (rejecting 1)) \<noteq> 0 \<and>
   len (Some [1]) \<noteq> 0 \<and> \<not> IsStreaming NewGXReplyData \<and>
   (\<exists>rp' w'.
      ReadDLMSPacket (1 + 3 + 0) (sim always (rejecting 1))
        reader0 (Some [1]) (Some NewGXReplyData) world0 = Some (Returns None, Some rp', w') \<and>
      sends w' = sends world0 + 1 + 1 \<and> sleeps w' = sleeps world0 + 1)"
  using rejected_retries [of "sim always (rejecting 1)"
      "\<lambda>c. 1 - c" 0 reader0 "Some [1]" NewGXReplyData world0 1 0]
  by (simp add: sim_simps len_def)

subsection \<open>\<open>ReadDataBlock\<close> against the specification's block sequencer\<close>

lemma ReadDLMSPacket_reply:
  "ReadDLMSPacket n E r data (Some acc) w = Some (out, reply', w') \<Longrightarrow> reply' \<noteq> None"
proof (induction n arbitrary: acc w)
  case 0
  then show ?case by simp
next
  case (Suc n)
  from Suc.prems show ?case
    apply (simp only: ReadDLMSPacket.simps Let_def split: if_split_asm prod.split_asm option.split_asm flow.split_asm)
    by (auto dest!: Suc.IH)
qed















subsection \<open>What the exchange leaves alone\<close>

text \<open>
  The frame transaction and the loop around it put traffic and trace lines into the
  world, and nothing else: the objects and the events of the methods above them stay.
\<close>

lemma ledger_emit [simp]: "ledger (emit e w) = (if high e then (objects w, filter high (events w) @ [e]) else ledger w)"
  by (simp add: ledger_def emit_def)

lemma ledger_upd [simp]: "ledger (w\<lparr>mediaSt := m\<rparr>) = ledger w" "ledger (w\<lparr>clientSt := c\<rparr>) = ledger w"
  by (simp_all add: ledger_def)

lemma ledger_writeTrace [simp]: "ledger (writeTrace l w) = ledger w"
  by (simp add: writeTrace_def)

lemma Send_ledger: "Send E d w = (e, w') \<Longrightarrow> ledger w' = ledger w"
  by (auto simp: Send_def split: prod.splits)

lemma Receive_ledger: "Receive E p w = (rx, w') \<Longrightarrow> ledger w' = ledger w"
  by (auto simp: Receive_def split: prod.splits)

lemma GetData_ledger: "GetData E rd reply notify w = (pr, w') \<Longrightarrow> ledger w' = ledger w"
  by (auto simp: GetData_def split: prod.splits)

lemma ReceiverReady_ledger: "ReceiverReady E reply w = (x, w') \<Longrightarrow> ledger w' = ledger w"
  by (auto simp: ReceiverReady_def split: prod.splits)

lemma sendLoop_ledger:
  "sendLoop n E r data reply ok a p w = Some (x, w') \<Longrightarrow> ledger w' = ledger w"
proof (induction n arbitrary: ok a p w)
  case 0
  then show ?case by simp
next
  case (Suc n)
  from Suc.prems show ?case
    apply (simp only: sendLoop.simps split: if_split_asm prod.split_asm option.split_asm)
    by (auto dest!: Suc.IH Send_ledger Receive_ledger)
qed

lemma receiveLoop_ledger:
  "receiveLoop E r data a p w = (x, w') \<Longrightarrow> ledger w' = ledger w"
proof (induction "nat (RetryCount r - a)" arbitrary: a p w rule: less_induct)
  case less
  have step: "\<not> RetryCount r \<le> a + 1 \<Longrightarrow> nat (RetryCount r - (a + 1)) < nat (RetryCount r - a)"
    by simp
  from less.prems show ?case
    apply (subst (asm) receiveLoop.simps)
    apply (simp only: split: if_split_asm prod.split_asm option.split_asm)
    by (auto dest!: less.hyps[OF step] Send_ledger Receive_ledger)
qed

lemma parseLoop_ledger:
  "parseLoop n E r data rd reply notify a p w = Some (x, rp, w') \<Longrightarrow> ledger w' = ledger w"
proof (induction n arbitrary: rd reply notify a p w)
  case 0
  then show ?case by simp
next
  case (Suc n)
  from Suc.prems show ?case
    apply (simp only: parseLoop.simps Let_def split: if_split_asm prod.split_asm option.split_asm flow.split_asm)
    by (auto dest!: Suc.IH GetData_ledger receiveLoop_ledger split: if_split_asm)
qed

lemma ReadDLMSPacket_ledger:
  "ReadDLMSPacket n E r data reply w = Some (x, rp, w') \<Longrightarrow> ledger w' = ledger w"
proof (induction n arbitrary: reply w)
  case 0
  then show ?case by simp
next
  case (Suc n)
  show ?case
  proof (cases reply)
    case None
    with Suc.prems show ?thesis by simp
  next
    case (Some rp0)
    from Suc.prems[unfolded Some] show ?thesis
      apply (simp only: ReadDLMSPacket.simps Let_def split: if_split_asm prod.split_asm option.split_asm flow.split_asm)
      by (auto dest!: Suc.IH sendLoop_ledger parseLoop_ledger)
  qed
qed

lemma followUp_ledger:
  "followUp n E r reply w = Some (x, rp, w') \<Longrightarrow> ledger w' = ledger w"
proof (induction n arbitrary: reply w)
  case 0
  then show ?case by simp
next
  case (Suc n)
  from Suc.prems show ?case
    apply (simp only: followUp.simps split: if_split_asm prod.split_asm option.split_asm sum.split_asm outcome.split_asm)
    by (auto dest!: Suc.IH ReadDLMSPacket_ledger ReceiverReady_ledger)
qed



lemma runsOf_append: "runsOf (xs @ ys) = runsOf xs @ runsOf ys"
  by (induction xs rule: runsOf.induct) simp_all

lemma runsOf_high: "runsOf (filter high es) = runsOf es"
  by (induction es rule: runsOf.induct) simp_all

lemma blockRuns_ledger: "ledger w' = ledger w \<Longrightarrow> blockRuns w' = blockRuns w"
  by (metis blockRuns_def ledger_def runsOf_high snd_conv)

lemma blockRuns_emit:
  "blockRuns (emit (EnterReadDataBlock f a) w) = blockRuns w @ [(f, a)]"
  by (simp add: blockRuns_def runsOf_append)

lemma followUp_reply:
  "followUp n E r acc w = Some (Returns x, reply', w') \<Longrightarrow> reply' \<noteq> None"
proof (induction n arbitrary: acc w)
  case 0
  then show ?case by simp
next
  case (Suc n)
  from Suc.prems show ?case
    apply (simp only: followUp.simps split: if_split_asm prod.split_asm option.split_asm sum.split_asm outcome.split_asm)
    by (auto dest!: Suc.IH ReadDLMSPacket_reply)
qed

lemma ReadDataBlock_reply:
  "ReadDataBlock n E r b (Some acc) w = Some (Returns x, reply', w') \<Longrightarrow> reply' \<noteq> None"
  unfolding ReadDataBlock_def
  apply (simp only: split: if_split_asm prod.split_asm option.split_asm outcome.split_asm)
  by (auto dest!: followUp_reply ReadDLMSPacket_reply)

lemma ReadDataBlock_ledger:
  "ReadDataBlock n E r b a w = Some (out, reply', w') \<Longrightarrow>
   ledger w' = ledger (emit (EnterReadDataBlock b a) w)"
  unfolding ReadDataBlock_def
  apply (simp only: split: if_split_asm prod.split_asm option.split_asm outcome.split_asm)
  by (auto dest!: followUp_ledger ReadDLMSPacket_ledger)

lemma ReadDataBlock_blockRuns:
  "ReadDataBlock n E r b a w = Some (out, reply', w') \<Longrightarrow> blockRuns w' = blockRuns w @ [(b, a)]"
  using blockRuns_ledger[OF ReadDataBlock_ledger] by (simp add: blockRuns_emit)


subsection \<open>\<open>ReadDataBlocks\<close>\<close>

lemma blocksLoop_done:
  "blocksLoop n E r bs (Some acc) w = Some (Returns (ok, None), acc', w') \<Longrightarrow>
   blockRuns w' = blockRuns w @ map (\<lambda>b. (b, Some NewGXReplyData)) bs \<and>
   (\<exists>a. acc' = Some a \<and> ok = (Error a = 0))"
proof (induction bs arbitrary: acc w)
  case Nil
  then show ?case by auto
next
  case (Cons b bs)
  from Cons.prems obtain a1 w1 where
    rd: "ReadDataBlock n E r b (Some (Clear acc)) w = Some (Returns None, a1, w1)"
    and rest: "blocksLoop n E r bs a1 w1 = Some (Returns (ok, None), acc', w')"
    by (auto split: option.splits outcome.splits)
  from ReadDataBlock_reply[OF rd] obtain a where a: "a1 = Some a" by blast
  from Cons.IH[OF rest[unfolded a]] ReadDataBlock_blockRuns[OF rd]
  show ?case by (simp add: Clear_def)
qed

lemma blocksLoop_failed:
  "blocksLoop n E r bs (Some acc) w = Some (Returns (ok, Some e), acc', w') \<Longrightarrow>
   \<not> ok \<and>
   (\<exists>pre b post ok1 a1 w1.
      bs = pre @ b # post \<and>
      blocksLoop n E r pre (Some acc) w = Some (Returns (ok1, None), Some a1, w1) \<and>
      ReadDataBlock n E r b (Some NewGXReplyData) w1 = Some (Returns (Some e), acc', w') \<and>
      blockRuns w' = blockRuns w @ map (\<lambda>b. (b, Some NewGXReplyData)) (pre @ [b]))"
proof (induction bs arbitrary: acc w)
  case Nil
  then show ?case by simp
next
  case (Cons b bs)
  from Cons.prems obtain out a1 w1 where
    rd: "ReadDataBlock n E r b (Some (Clear acc)) w = Some (out, a1, w1)"
    by (auto split: option.splits)
  show ?case
  proof (cases out)
    case Panics
    with Cons.prems rd show ?thesis by simp
  next
    case (Returns x)
    show ?thesis
    proof (cases x)
      case (Some e')
      with Cons.prems rd Returns have eq: "ok = False" "e' = e" "acc' = a1" "w' = w1" by simp_all
      have "blocksLoop n E r [] (Some acc) w = Some (Returns (Error acc = 0, None), Some acc, w)"
        by simp
      moreover have "ReadDataBlock n E r b (Some NewGXReplyData) w = Some (Returns (Some e), acc', w')"
        using rd Returns Some eq by (simp add: Clear_def)
      moreover have "blockRuns w' = blockRuns w @ map (\<lambda>b. (b, Some NewGXReplyData)) ([] @ [b])"
        using ReadDataBlock_blockRuns[OF rd] eq by (simp add: Clear_def)
      moreover have "b # bs = [] @ b # bs" by simp
      ultimately show ?thesis using eq(1) by blast
    next
      case None
      from ReadDataBlock_reply[OF rd[unfolded Returns]] obtain a where a: "a1 = Some a" by blast
      from Cons.prems rd Returns None a
      have rest: "blocksLoop n E r bs (Some a) w1 = Some (Returns (ok, Some e), acc', w')" by simp
      from Cons.IH[OF rest] obtain pre c post ok1 a2 w2 where
        ih: "\<not> ok" "bs = pre @ c # post"
          "blocksLoop n E r pre (Some a) w1 = Some (Returns (ok1, None), Some a2, w2)"
          "ReadDataBlock n E r c (Some NewGXReplyData) w2 = Some (Returns (Some e), acc', w')"
          "blockRuns w' = blockRuns w1 @ map (\<lambda>b. (b, Some NewGXReplyData)) (pre @ [c])"
        by blast
      have "b # bs = (b # pre) @ c # post" using ih(2) by simp
      moreover have "blocksLoop n E r (b # pre) (Some acc) w = Some (Returns (ok1, None), Some a2, w2)"
        using rd Returns None a ih(3) by simp
      moreover have "blockRuns w' = blockRuns w @ map (\<lambda>b. (b, Some NewGXReplyData)) ((b # pre) @ [c])"
        using ih(5) ReadDataBlock_blockRuns[OF rd] by (simp add: Clear_def)
      ultimately show ?thesis using ih(1,4) by blast
    qed
  qed
qed

text \<open>
  C4. A call of \<open>ReadDataBlocks\<close> with a non-nil block set \<open>bs\<close> that returns without an
  error has run \<open>ReadDataBlock\<close> once for every block of \<open>bs\<close>, in order, each time on a
  cleared accumulator, and its boolean says whether the accumulator's error code is 0.
  A call that returns the error \<open>e\<close> has run it on the blocks up to the first one whose
  exchange failed, \<open>b\<close> after \<open>pre\<close>: that is \<open>length pre + 1\<close> runs, the blocks of \<open>pre\<close>
  went through without an error, the exchange of \<open>b\<close> returned \<open>e\<close>, no later block was
  touched, and the boolean is false.
\<close>

theorem ReadDataBlocks_runs:
  assumes "ReadDataBlocks n E r (Some bs) (Some acc) w = Some (Returns (ok, err), acc', w')"
  shows "(err = None \<longrightarrow>
            blockRuns w' = blockRuns w @ map (\<lambda>b. (b, Some NewGXReplyData)) bs \<and>
            (\<exists>a. acc' = Some a \<and> ok = (Error a = 0))) \<and>
         (\<forall>e. err = Some e \<longrightarrow>
            \<not> ok \<and>
            (\<exists>pre b post ok1 a1 w1.
               bs = pre @ b # post \<and>
               ReadDataBlocks n E r (Some pre) (Some acc) w = Some (Returns (ok1, None), Some a1, w1) \<and>
               ReadDataBlock n E r b (Some NewGXReplyData) w1 = Some (Returns (Some e), acc', w') \<and>
               blockRuns w' = blockRuns w @ map (\<lambda>b. (b, Some NewGXReplyData)) (pre @ [b])))"
  using assms blocksLoop_done[of n E r bs acc w ok acc' w']
    blocksLoop_failed[of n E r bs acc w ok _ acc' w']
  by (auto simp: ReadDataBlocks_def)


lemmas seq_simps = ReadDataBlocks_def ReadDataBlock_def moreToRead_def

theorem ReadDataBlocks_runs_witness:
  "(\<exists>acc' w'.
      ReadDataBlocks 10 (sim always accepting) reader0
        (Some [Some [1], Some [2]]) (Some NewGXReplyData) world0 =
        Some (Returns (True, None), acc', w') \<and>
      blockRuns w' = blockRuns world0 @
        map (\<lambda>b. (b, Some NewGXReplyData)) [Some [1], Some [2]] \<and>
      (\<exists>a. acc' = Some a \<and> True = (Error a = 0))) \<and>
   (\<exists>acc' w'.
      ReadDataBlocks 10 (sim always (failingAt 1 5)) reader0
        (Some [Some [1], Some [2], Some [3]]) (Some NewGXReplyData) world0 =
        Some (Returns (False, Some (DlmsError 5)), acc', w') \<and>
      (\<exists>pre b post ok1 a1 w1.
         [Some [1], Some [2], Some [3]] = pre @ b # post \<and>
         ReadDataBlocks 10 (sim always (failingAt 1 5)) reader0
           (Some pre) (Some NewGXReplyData) world0 = Some (Returns (ok1, None), Some a1, w1) \<and>
         ReadDataBlock 10 (sim always (failingAt 1 5)) reader0
           b (Some NewGXReplyData) w1 = Some (Returns (Some (DlmsError 5)), acc', w') \<and>
         blockRuns w' = blockRuns world0 @ map (\<lambda>b. (b, Some NewGXReplyData)) (pre @ [b])))"
proof -
  let ?E1 = "sim always accepting"
  let ?E2 = "sim always (failingAt 1 5)"
  have "\<exists>acc' w'. ReadDataBlocks 10 ?E1 reader0 (Some [Some [1], Some [2]])
          (Some NewGXReplyData) world0 = Some (Returns (True, None), acc', w')"
    by (simp add: eval_nat_numeral sim_simps call_simps receiveLoop.simps seq_simps)
  then obtain acc1 w1 where r1: "ReadDataBlocks 10 ?E1 reader0 (Some [Some [1], Some [2]])
          (Some NewGXReplyData) world0 = Some (Returns (True, None), acc1, w1)"
    by blast
  have "\<exists>acc' w'. ReadDataBlocks 10 ?E2 reader0 (Some [Some [1], Some [2], Some [3]])
          (Some NewGXReplyData) world0 = Some (Returns (False, Some (DlmsError 5)), acc', w')"
    by (simp add: eval_nat_numeral sim_simps call_simps receiveLoop.simps seq_simps)
  then obtain acc2 w2 where r2: "ReadDataBlocks 10 ?E2 reader0 (Some [Some [1], Some [2], Some [3]])
          (Some NewGXReplyData) world0 = Some (Returns (False, Some (DlmsError 5)), acc2, w2)"
    by blast
  from ReadDataBlocks_runs [OF r1] ReadDataBlocks_runs [OF r2] r1 r2
  show ?thesis by simp
qed

subsection \<open>\<open>ReadList\<close>\<close>

lemma appliedOf_append: "appliedOf (xs @ ys) = appliedOf xs @ appliedOf ys"
  by (induction xs rule: appliedOf.induct) simp_all

lemma appliedOf_high: "appliedOf (filter high es) = appliedOf es"
  by (induction es rule: appliedOf.induct) simp_all

lemma applied_ledger: "ledger w' = ledger w \<Longrightarrow> applied w' = applied w \<and> objects w' = objects w"
  by (metis applied_def ledger_def appliedOf_high snd_conv fst_conv)

lemma applied_emit:
  "applied (emit e w) = applied w @ (case e of ValuesUpdated l v \<Rightarrow> [(l, v)] | _ \<Rightarrow> [])"
  by (simp add: applied_def appliedOf_append split: event.split)

lemma applied_upd [simp]:
  "applied (w\<lparr>clientSt := c\<rparr>) = applied w" "applied (w\<lparr>objects := st\<rparr>) = applied w"
  by (simp_all add: applied_def)

lemma ReadDataBlock_applied:
  "ReadDataBlock n E r b a w = Some (out, reply', w') \<Longrightarrow> applied w' = applied w \<and> objects w' = objects w"
  using applied_ledger[OF ReadDataBlock_ledger] by (fastforce simp: applied_emit)

lemma listLoop_applied:
  "listLoop n E r fs reply vals w = Some (x, w') \<Longrightarrow> applied w' = applied w \<and> objects w' = objects w"
proof (induction fs arbitrary: reply vals w)
  case Nil
  then show ?case by simp
next
  case (Cons f fs)
  from Cons.prems show ?case
    apply (simp only: listLoop.simps split: option.split_asm prod.split_asm outcome.split_asm)
    by (auto dest!: Cons.IH ReadDataBlock_applied)
qed

lemmas list_simps = ReadList_def applied_def valued_def refusing_def

text \<open>
  C10. When \<open>ReadList\<close> returns the count-mismatch error, \<open>UpdateValues\<close> has not been
  called in the course of the call and no attribute value is different from before.
\<close>

theorem ReadList_mismatch_applies_nothing:
  "ReadList n E r list w = Some (Returns (Some (InvalidReplyCount got expected)), w') \<Longrightarrow>
   applied w' = applied w \<and> objects w' = objects w"
  unfolding ReadList_def
  apply (simp only: split: if_split_asm option.split_asm prod.split_asm sum.split_asm flow.split_asm)
  by (auto dest!: listLoop_applied simp: applied_emit UpdateValues_def split: prod.splits)


theorem ReadList_mismatch_applies_nothing_witness:
  "\<exists>w'. ReadList 10 (sim always (valued [Scalar 10])) reader0 [(1, 2), (7, 3)] world0 =
          Some (Returns (Some (InvalidReplyCount 1 2)), w') \<and>
        applied w' = applied world0 \<and> objects w' = objects world0"
proof -
  have "\<exists>w'. ReadList 10 (sim always (valued [Scalar 10])) reader0 [(1, 2), (7, 3)] world0 =
          Some (Returns (Some (InvalidReplyCount 1 2)), w')"
    by (simp add: eval_nat_numeral sim_simps call_simps receiveLoop.simps seq_simps list_simps
        blockValues_def)
  then obtain w' where r: "ReadList 10 (sim always (valued [Scalar 10])) reader0
      [(1, 2), (7, 3)] world0 = Some (Returns (Some (InvalidReplyCount 1 2)), w')"
    by blast
  from ReadList_mismatch_applies_nothing [OF r] r show ?thesis by blast
qed

text \<open>
  C6, as stated, fails: two attributes are requested, two values arrive, and the call
  does not succeed, because it returns what \<open>UpdateValues\<close> returns.
\<close>

theorem matching_count_may_fail:
  "length [Scalar 10, Scalar 20] = length [(1 :: nat, 2 :: int), (7, 3)] \<and>
   withApplied
     (ReadList 10 (refusing 7 (sim always (valued [Scalar 10, Scalar 20]))) reader0
        [(1, 2), (7, 3)] world0) =
   Some (Returns (Some (ClientError 7)), [([(1, 2), (7, 3)], [Scalar 10, Scalar 20])])"
  by (simp add: eval_nat_numeral sim_simps call_simps receiveLoop.simps seq_simps list_simps
      blockValues_def withApplied_def)

text \<open>
  C6, amended. Let \<open>vals\<close> be the values the loop over the frames has assembled. When
  their number differs from the number of requested attributes, \<open>ReadList\<close> fails with
  the count-mismatch error, and nothing is applied. When the numbers agree, \<open>ReadList\<close>
  hands the requested list and \<open>vals\<close>, both in their order, to \<open>UpdateValues\<close> once, the
  attribute values afterwards are the ones \<open>UpdateValues\<close> makes of them, and the call
  returns what \<open>UpdateValues\<close> returns: it succeeds when the codec applies the values
  without an error.
\<close>

theorem ReadList_checks_count:
  assumes c: "client r"
    and req: "client_ReadList E (clientSt w) list = (Inr frames, c')"
    and loop: "listLoop n E r (case frames of None \<Rightarrow> [] | Some fs \<Rightarrow> fs) NewGXReplyData []
                 (emit (ReadListRequested list) (w\<lparr>clientSt := c'\<rparr>)) = Some (Next vals, w1)"
  shows "(length vals \<noteq> length list \<longrightarrow>
            ReadList n E r list w =
              Some (Returns (Some (InvalidReplyCount (length vals) (length list))), w1) \<and>
            applied w1 = applied w \<and> objects w1 = objects w) \<and>
         (length vals = length list \<longrightarrow>
            (\<exists>w'. ReadList n E r list w =
               Some (Returns (map_option ClientError
                       (fst (client_UpdateValues E (clientSt w1) list vals (objects w)))), w') \<and>
             applied w' = applied w @ [(list, vals)] \<and>
             objects w' = snd (snd (client_UpdateValues E (clientSt w1) list vals (objects w)))))"
proof -
  from listLoop_applied[OF loop] have k: "applied w1 = applied w" "objects w1 = objects w"
    by (simp_all add: applied_emit)
  obtain e c2 st where u: "client_UpdateValues E (clientSt w1) list vals (objects w) = (e, c2, st)"
    by (cases "client_UpdateValues E (clientSt w1) list vals (objects w)")
  show ?thesis using c req loop k u
    by (simp add: ReadList_def UpdateValues_def applied_emit)
qed

theorem ReadList_checks_count_witness:
  "\<exists>w1 w'.
     listLoop 10 (sim always (valued [Scalar 10, Scalar 20])) reader0 [Some [0xC0]]
       NewGXReplyData [] (emit (ReadListRequested [(1, 2), (7, 3)]) world0) =
       Some (Next [Scalar 10, Scalar 20], w1) \<and>
     ReadList 10 (sim always (valued [Scalar 10, Scalar 20])) reader0 [(1, 2), (7, 3)] world0 =
       Some (Returns None, w') \<and>
     applied w' = applied world0 @ [([(1, 2), (7, 3)], [Scalar 10, Scalar 20])] \<and>
     objects w' (1, 2) = Some (Scalar 10) \<and> objects w' (7, 3) = Some (Scalar 20)"
proof -
  let ?E = "sim always (valued [Scalar 10, Scalar 20])"
  have c: "client reader0" by (simp add: reader0_def NewGXDLMSReader_def)
  have req: "client_ReadList ?E (clientSt world0) [(1, 2), (7, 3)] = (Inr (Some [Some [0xC0]]), 0)"
    by (simp add: sim_simps)
  have "\<exists>w1. listLoop 10 ?E reader0 (case Some [Some [0xC0]] of None \<Rightarrow> [] | Some fs \<Rightarrow> fs)
       NewGXReplyData [] (emit (ReadListRequested [(1, 2), (7, 3)]) (world0\<lparr>clientSt := 0\<rparr>)) =
       Some (Next [Scalar 10, Scalar 20], w1)"
    by (simp add: eval_nat_numeral sim_simps call_simps receiveLoop.simps seq_simps list_simps
        blockValues_def)
  then obtain w1 where loop: "listLoop 10 ?E reader0 (case Some [Some [0xC0]] of None \<Rightarrow> [] | Some fs \<Rightarrow> fs)
       NewGXReplyData [] (emit (ReadListRequested [(1, 2), (7, 3)]) (world0\<lparr>clientSt := 0\<rparr>)) =
       Some (Next [Scalar 10, Scalar 20], w1)"
    by blast
  have w0: "world0\<lparr>clientSt := 0\<rparr> = world0" by (simp add: world0_def)
  from ReadList_checks_count [OF c req loop] loop w0 show ?thesis
    by (auto simp: sim_def world0_def)
qed

subsection \<open>Teardown\<close>

lemmas down_simps = Release_def Disconnect_def Close_def wrapped_def undisconnectable_def

lemmas stuck_simps = hollow_def stubborn_def afterClose_def

text \<open>
  With one unit of fuel the first round of the send loop is not finished; and a device
  that reports every reply as rejected keeps \<open>ReadDLMSPacket\<close> calling itself (line 451),
  so the call does not return, whatever the fuel. \<open>Close\<close> of such a device does not
  return either.
\<close>

lemma sendLoop_one_round:
  assumes tx: "\<forall>d m. fst (media_Send E d m) = None"
    and rx: "\<forall>p m. succeeded (fst (media_Receive E p m)) \<and> rxErr (fst (media_Receive E p m)) = None \<and>
          rxReply (fst (media_Receive E p m)) \<noteq> None"
    and ns: "\<not> IsStreaming reply" and ne: "len data \<noteq> 0"
  shows "sendLoop (Suc 0) E r data reply False 0 p w = None"
proof -
  obtain e w1 where S: "Send E data (writeTrace (TX data) w) = (e, w1)"
    by (cases "Send E data (writeTrace (TX data) w)")
  have e: "e = None" using Send_never_fails[OF tx, of data "writeTrace (TX data) w"] S by simp
  obtain x w2 where R: "Receive E p w1 = (x, w2)" by (cases "Receive E p w1")
  have x: "succeeded x" "rxErr x = None"
    using Receive_always_succeeds[OF rx, of p w1] R by simp_all
  show ?thesis using S e R x ns ne by simp
qed

lemma stubborn_never_returns:
  "\<not> IsStreaming reply \<Longrightarrow>
   ReadDLMSPacket n (sim always stubborn) reader0 (Some [0x53]) (Some reply) w = None"
proof (induction n arbitrary: reply w)
  case 0
  then show ?case by simp
next
  case (Suc n)
  let ?E = "sim always stubborn"
  let ?p = "\<lparr>EOP = Some (0x7E :: byte), Count = client_GetFrameSize ?E (clientSt w) [], AllData = True,
             WaitTimeP = WaitTime reader0, Reply = None\<rparr>"
  have eop: "client_InterfaceType ?E (clientSt w) = InterfaceTypeHDLC" by (simp add: sim_def)
  have cm: "client reader0" "media reader0" by (simp_all add: reader0_def NewGXDLMSReader_def)
  have tx: "\<forall>d m. fst (media_Send ?E d m) = None" by (simp add: sim_def)
  have rx: "\<forall>p m. succeeded (fst (media_Receive ?E p m)) \<and> rxErr (fst (media_Receive ?E p m)) = None \<and>
          rxReply (fst (media_Receive ?E p m)) \<noteq> None"
    by (simp add: sim_simps)
  have ns0: "\<not> IsStreaming (reply\<lparr>Error := 0\<rparr>)" using Suc.prems by simp
  have ne: "len (Some [0x53]) \<noteq> 0" by (simp add: len_def)
  consider "n = 0" | "n = Suc 0" | m where "n = Suc (Suc m)"
    by (cases n; cases "n - 1") auto
  then show ?case
  proof cases
    case 1
    then show ?thesis using cm eop by (simp add: Let_def)
  next
    case 2
    show ?thesis unfolding 2
      apply (subst ReadDLMSPacket.simps)
      using sendLoop_one_round[OF tx rx ns0 ne, of reader0 ?p w] cm eop
      by (simp add: Let_def del: sendLoop.simps)
  next
    case (3 m)
    note n = this
    from sendLoop_answered[OF tx rx ns0 ne, of m reader0 ?p w]
    obtain p' w1 where sl: "sendLoop (Suc (Suc m)) ?E reader0 (Some [0x53]) (reply\<lparr>Error := 0\<rparr>) False 0 ?p w =
        Some (Next (True, p'), w1)" and p': "Reply p' \<noteq> None"
      by blast
    obtain b where b: "Reply p' = Some b" using p' by blast
    have rd: "buffer_Set ?E [] b = (None, b)" by (simp add: sim_def)
    let ?g = "client_GetData ?E (clientSt w1) b (reply\<lparr>Error := 0\<rparr>) NewGXReplyData"
    have g: "complete (fst ?g)" "gdErr (fst ?g) = None" "\<not> IsStreaming (gdReply (fst ?g))"
      "Error (gdReply (fst ?g)) = ErrorCodeRejected ?E" "ErrorCodeRejected ?E \<noteq> 0"
      using ns0 by (simp_all add: sim_simps stuck_simps)
    have pl: "parseLoop (Suc (Suc m)) ?E reader0 (Some [0x53]) b (reply\<lparr>Error := 0\<rparr>) NewGXReplyData 0 p' w1 =
        Some (Next (gdBuffer (fst ?g)), gdReply (fst ?g), w1\<lparr>clientSt := snd ?g\<rparr>)"
      using parseLoop_completes[OF g(1,2)] .
    have ih: "ReadDLMSPacket (Suc (Suc m)) ?E reader0 (Some [0x53]) (Some (gdReply (fst ?g)))
        (emit Slept (writeTrace (RX (gdBuffer (fst ?g))) (w1\<lparr>clientSt := snd ?g\<rparr>))) = None"
      using Suc.IH[OF g(3)] n by simp
    show ?thesis unfolding n
      apply (subst ReadDLMSPacket.simps)
      using sl b rd pl g(4,5) cm eop ih
      by (simp add: Let_def del: sendLoop.simps parseLoop.simps ReadDLMSPacket.simps)
  qed
qed

lemma Close_never_returns:
  "Close n (sim always stubborn) reader0 world0 = None"
  using stubborn_never_returns[of NewGXReplyData n]
  by (simp add: sim_simps down_simps emit_def)

text \<open>
  C7, as stated, fails: the transport is not closed regardless of what \<open>Disconnect\<close> does.
  The call of \<open>r.media.Close()\<close> (line 662) follows the call of \<open>r.Disconnect()\<close> and is
  not deferred. On a reader that holds its media, with a transport that reports a reply
  and leaves \<open>p.Reply\<close> nil, the disconnect exchange panics at \<open>p.Reply.([]byte)\<close>
  (line 399): \<open>Close\<close> panics with it, the reader still holds its media and the media
  has not been closed. With a device that reports every reply as rejected, \<open>Close\<close> does
  not return.
\<close>

theorem Close_leaves_transport_open:
  "media reader0 \<and>
   afterClose (Close 10 (sim hollow accepting) reader0 world0) =
     Some (Panics, True,
       [DisconnectRequested, Traced (TX (Some [0x53])), Sent (Some [0x53]), ReceiveCalled]) \<and>
   Close 10 (sim always stubborn) reader0 world0 = None"
  using Close_never_returns [of 10]
  by (simp add: eval_nat_numeral sim_simps call_simps receiveLoop.simps down_simps stuck_simps)

text \<open>
  C7, amended. In \<open>Disconnect\<close>, on a reader with a client and a media: when \<open>Release\<close>
  returns an error, the error is written to the trace and the disconnect request is built
  all the same; the result is that of the disconnect exchange (nil when there is no frame
  to send). When the disconnect request cannot be built, \<open>Disconnect\<close> returns that error
  and sends nothing. In \<open>Close\<close>, on a reader with a media: whenever \<open>Disconnect\<close> returns,
  with an error or with nil, the media is closed next, the two references are set to nil,
  and the result is that of closing the media. When \<open>Disconnect\<close> panics, \<open>Close\<close> panics
  with the reader and the world as \<open>Disconnect\<close> left them, the media not closed; when
  \<open>Disconnect\<close> does not return, neither does \<open>Close\<close>.
\<close>

theorem teardown_best_effort:
  "(client r \<and> media r \<and> Release n E r w = Some (Returns (Some e), wr) \<and>
    client_DisconnectRequest E (clientSt wr) = (Inr f, c') \<longrightarrow>
      Disconnect n E r w =
        (if f = None
         then Some (Returns None,
                emit DisconnectRequested ((writeTrace (ReleaseFailedLine e) wr)\<lparr>clientSt := c'\<rparr>))
         else map_option (\<lambda>(out, rp, w3). (out, w3))
                (ReadDLMSPacket n E r f (Some NewGXReplyData)
                   (emit DisconnectRequested
                      ((writeTrace (ReleaseFailedLine e) wr)\<lparr>clientSt := c'\<rparr>))))) \<and>
   (client r \<and> media r \<and> Release n E r w = Some (Returns err, wr) \<and>
    client_DisconnectRequest E (clientSt wr) = (Inl k, c') \<longrightarrow>
      Disconnect n E r w =
        Some (Returns (Some (ClientError k)),
              emit DisconnectRequested
                ((case err of Some e \<Rightarrow> writeTrace (ReleaseFailedLine e) wr | None \<Rightarrow> wr)
                   \<lparr>clientSt := c'\<rparr>))) \<and>
   (media r \<and> Disconnect n E r w = Some (Returns x, wd) \<longrightarrow>
      Close n E r w =
        Some (Returns (map_option MediaError (fst (media_Close E (mediaSt wd)))),
              r\<lparr>media := False, client := False\<rparr>,
              emit MediaClosed (wd\<lparr>mediaSt := snd (media_Close E (mediaSt wd))\<rparr>))) \<and>
   (media r \<and> Disconnect n E r w = Some (Panics, wp) \<longrightarrow> Close n E r w = Some (Panics, r, wp)) \<and>
   (media r \<and> Disconnect n E r w = None \<longrightarrow> Close n E r w = None)"
  by (auto simp: Disconnect_def Close_def split: option.splits prod.splits)

theorem teardown_best_effort_witness:
  "map_option fst (Release 10 (wrapped (sim always accepting)) reader0 world0) =
     Some (Returns (Some (ClientError 9))) \<and>
   map_option (\<lambda>(out, w). (out, events w))
     (Disconnect 10 (wrapped (sim always accepting)) reader0 world0) =
     Some (Returns None,
       [ReleaseRequested, Traced (ReleaseFailedLine (ClientError 9)), DisconnectRequested,
        Traced (TX (Some [0x53])), Sent (Some [0x53]), ReceiveCalled, Traced (RX [])]) \<and>
   map_option (\<lambda>(out, w). (out, events w))
     (Disconnect 10 (undisconnectable (sim always accepting)) reader0 world0) =
     Some (Returns (Some (ClientError 4)), [DisconnectRequested]) \<and>
   map_option (\<lambda>(out, r, w). (out, media r, events w))
     (Close 10 (undisconnectable (sim always accepting)) reader0 world0) =
     Some (Returns None, False, [DisconnectRequested, MediaClosed]) \<and>
   afterClose (Close 10 (sim hollow accepting) reader0 world0) =
     Some (Panics, True,
       [DisconnectRequested, Traced (TX (Some [0x53])), Sent (Some [0x53]), ReceiveCalled]) \<and>
   Disconnect 10 (sim always stubborn) reader0 world0 = None \<and>
   Close 10 (sim always stubborn) reader0 world0 = None"
proof -
  let ?E1 = "wrapped (sim always accepting)"
  let ?E2 = "undisconnectable (sim always accepting)"
  let ?E4 = "sim hollow accepting"
  let ?E5 = "sim always stubborn"
  have cm: "client reader0" "media reader0" by (simp_all add: reader0_def NewGXDLMSReader_def)
  have r1: "Release 10 ?E1 reader0 world0 = Some (Returns (Some (ClientError 9)), emit ReleaseRequested world0)"
    by (simp add: sim_simps down_simps emit_def)
  have d1: "client_DisconnectRequest ?E1 (clientSt (emit ReleaseRequested world0)) = (Inr (Some [0x53]), 0)"
    by (simp add: sim_simps down_simps emit_def)
  have r2: "Release 10 ?E2 reader0 world0 = Some (Returns None, world0)"
    by (simp add: sim_simps down_simps)
  have d2: "client_DisconnectRequest ?E2 (clientSt world0) = (Inl 4, 0)"
    by (simp add: sim_simps down_simps)
  have a: "Disconnect 10 ?E1 reader0 world0 =
      map_option (\<lambda>(out, rp, w3). (out, w3))
        (ReadDLMSPacket 10 ?E1 reader0 (Some [0x53]) (Some NewGXReplyData)
           (emit DisconnectRequested
              ((writeTrace (ReleaseFailedLine (ClientError 9)) (emit ReleaseRequested world0))
                 \<lparr>clientSt := 0\<rparr>)))"
    using teardown_best_effort [where r = reader0 and n = 10 and E = ?E1 and w = world0
        and e = "ClientError 9" and wr = "emit ReleaseRequested world0" and f = "Some [0x53]"
        and c' = 0] cm r1 d1 by simp
  have b: "Disconnect 10 ?E2 reader0 world0 =
      Some (Returns (Some (ClientError 4)), emit DisconnectRequested (world0\<lparr>clientSt := 0\<rparr>))"
    using teardown_best_effort [where r = reader0 and n = 10 and E = ?E2 and w = world0
        and wr = world0 and err = None and k = 4 and c' = 0] cm r2 d2 by simp
  have c: "Close 10 ?E2 reader0 world0 =
      Some (Returns (map_option MediaError
              (fst (media_Close ?E2 (mediaSt (emit DisconnectRequested (world0\<lparr>clientSt := 0\<rparr>)))))),
            reader0\<lparr>media := False, client := False\<rparr>,
            emit MediaClosed ((emit DisconnectRequested (world0\<lparr>clientSt := 0\<rparr>))
              \<lparr>mediaSt := snd (media_Close ?E2 (mediaSt (emit DisconnectRequested (world0\<lparr>clientSt := 0\<rparr>))))\<rparr>))"
    using teardown_best_effort [where r = reader0 and n = 10 and E = ?E2 and w = world0
        and x = "Some (ClientError 4)"
        and wd = "emit DisconnectRequested (world0\<lparr>clientSt := 0\<rparr>)"] cm b by simp
  have "map_option (\<lambda>(out, w). (out, events w)) (Disconnect 10 ?E4 reader0 world0) =
      Some (Panics,
        [DisconnectRequested, Traced (TX (Some [0x53])), Sent (Some [0x53]), ReceiveCalled])"
    by (simp add: eval_nat_numeral sim_simps call_simps receiveLoop.simps down_simps stuck_simps)
  then obtain wp where d4: "Disconnect 10 ?E4 reader0 world0 = Some (Panics, wp)"
    and e4: "events wp =
      [DisconnectRequested, Traced (TX (Some [0x53])), Sent (Some [0x53]), ReceiveCalled]"
    by auto
  have c4: "Close 10 ?E4 reader0 world0 = Some (Panics, reader0, wp)"
    using teardown_best_effort [where r = reader0 and n = 10 and E = ?E4 and w = world0
        and wp = wp] cm d4 by simp
  have d5: "Disconnect 10 ?E5 reader0 world0 = None"
    using stubborn_never_returns [of NewGXReplyData 10]
    by (simp add: sim_simps down_simps emit_def)
  have c5: "Close 10 ?E5 reader0 world0 = None"
    using teardown_best_effort [where r = reader0 and n = 10 and E = ?E5 and w = world0] cm d5
    by simp
  show ?thesis
    unfolding a b c r1 c4 c5 d5
    using e4 cm
    by (simp add: eval_nat_numeral sim_simps call_simps receiveLoop.simps down_simps afterClose_def)
qed

text \<open>
  C8. After a \<open>Close\<close> that has returned, the media reference is nil; a second \<open>Close\<close>
  returns nil and leaves the reader and the world as they are, so nothing is released,
  disconnected or closed again; \<open>Disconnect\<close> and \<open>Release\<close> return nil in the same way.
\<close>

theorem Close_twice:
  "Close n E r w = Some (Returns e, r', w') \<Longrightarrow>
   \<not> media r' \<and>
   Close k E r' w' = Some (Returns None, r', w') \<and>
   Disconnect k E r' w' = Some (Returns None, w') \<and>
   Release k E r' w' = Some (Returns None, w')"
  by (auto simp: Close_def Disconnect_def Release_def split: if_split_asm option.splits prod.splits outcome.splits)

theorem Close_twice_witness:
  "\<exists>r' w'.
     Close 10 (sim always accepting) reader0 world0 = Some (Returns None, r', w') \<and>
     \<not> media r' \<and>
     Close 10 (sim always accepting) r' w' = Some (Returns None, r', w') \<and>
     Disconnect 10 (sim always accepting) r' w' = Some (Returns None, w') \<and>
     Release 10 (sim always accepting) r' w' = Some (Returns None, w')"
proof -
  have "\<exists>r' w'. Close 10 (sim always accepting) reader0 world0 =
      Some (Returns None, r', w')"
    by (simp add: eval_nat_numeral sim_simps call_simps receiveLoop.simps down_simps)
  then obtain r' w' where c: "Close 10 (sim always accepting) reader0 world0 =
      Some (Returns None, r', w')"
    by blast
  from Close_twice [OF c, of 10] c show ?thesis by blast
qed

end
